theory Spec2Isabelle
  imports Main "HOL-Library.Word" "HOL-Library.AList"
begin

unbundle bit_operations_syntax

section \<open>Bytes, exceptions and the library functions the store relies on\<close>

text \<open>
  A Python \<open>bytes\<close> object is a list of 8-bit words.  Python integers are unbounded
  and are modelled as \<open>int\<close>; lengths are \<open>int (length xs)\<close>.  Every exception the
  modelled code can raise is a value of \<open>error\<close>, and a function that can raise returns
  \<open>error + 'a\<close> with \<open>Inl\<close> for the exception.
\<close>

type_synonym byte = "8 word"
type_synonym bytes = "byte list"

datatype error =
    StructError
  | ValueError
  | TypeError
  | AttributeError
  | ErrKeyIsEmpty
  | ErrDatabaseClosed
  | ErrDatabaseIsUsing
  | ErrBatchClosed
  | ErrDataFileNotFound

subsection \<open>\<open>zlib.crc32\<close>\<close>

text \<open>
  \<open>zlib.crc32\<close> is the reflected CRC-32 of IEEE 802.3 (polynomial \<open>0xEDB88320\<close>, initial
  value and final xor \<open>0xFFFFFFFF\<close>), computed bit by bit on the running value.
\<close>

definition crc32_bit :: "int \<Rightarrow> int" where
  "crc32_bit c = (if odd c then (c div 2) XOR 0xEDB88320 else c div 2)"

definition crc32_byte :: "int \<Rightarrow> byte \<Rightarrow> int" where
  "crc32_byte c b = (crc32_bit ^^ 8) (c XOR uint b)"

definition zlib_crc32 :: "bytes \<Rightarrow> int" where
  "zlib_crc32 bs = (foldl crc32_byte 0xFFFFFFFF bs) XOR 0xFFFFFFFF"

subsection \<open>\<open>struct.pack\<close> and \<open>struct.unpack\<close> for unsigned fields\<close>

datatype endian = Big | Little

fun le_bytes :: "nat \<Rightarrow> int \<Rightarrow> bytes" where
  "le_bytes 0 v = []"
| "le_bytes (Suc n) v = word_of_int v # le_bytes n (v div 256)"

fun le_int :: "bytes \<Rightarrow> int" where
  "le_int [] = 0"
| "le_int (b # bs) = uint b + 256 * le_int bs"

definition uint_bytes :: "endian \<Rightarrow> nat \<Rightarrow> int \<Rightarrow> bytes" where
  "uint_bytes e n v = (case e of Little \<Rightarrow> le_bytes n v | Big \<Rightarrow> rev (le_bytes n v))"

text \<open>
  \<open>struct.pack\<close> of one unsigned field of \<open>n\<close> bytes (\<open>I\<close> is 4 bytes, \<open>Q\<close> is 8):
  \<open>struct.error\<close> when the number is negative or does not fit.
\<close>

definition pack_uint :: "endian \<Rightarrow> nat \<Rightarrow> int \<Rightarrow> error + bytes" where
  "pack_uint e n v =
     (if 0 \<le> v \<and> v < 256 ^ n then Inr (uint_bytes e n v) else Inl StructError)"

text \<open>
  \<open>struct.unpack\<close> of one unsigned field; the callers pass a slice of exactly the
  field's width, or check the length themselves.
\<close>

definition unpack_uint :: "endian \<Rightarrow> bytes \<Rightarrow> int" where
  "unpack_uint e bs = (case e of Little \<Rightarrow> le_int bs | Big \<Rightarrow> le_int (rev bs))"

text \<open>\<open>struct.pack_into(fmt, buf, off, v)\<close>: the packed field overwrites \<open>buf[off:off+n]\<close>.\<close>

definition pack_into :: "endian \<Rightarrow> nat \<Rightarrow> bytes \<Rightarrow> nat \<Rightarrow> int \<Rightarrow> error + bytes" where
  "pack_into e n buf off v =
     (case pack_uint e n v of
        Inl err \<Rightarrow> Inl err
      | Inr bs \<Rightarrow>
          if off + n \<le> length buf then Inr (take off buf @ bs @ drop (off + n) buf)
          else Inl StructError)"

text \<open>
  A Python slice \<open>xs[a:b]\<close> with \<open>0 \<le> a\<close>, and the slice assignment \<open>xs[a:b] = ys\<close>
  (both clip to the length of \<open>xs\<close>; an empty range when \<open>b \<le> a\<close>).
\<close>

definition slice :: "'a list \<Rightarrow> nat \<Rightarrow> nat \<Rightarrow> 'a list" where
  "slice xs a b = take (b - a) (drop a xs)"

definition slice_assign :: "'a list \<Rightarrow> nat \<Rightarrow> nat \<Rightarrow> 'a list \<Rightarrow> 'a list" where
  "slice_assign xs a b ys = take a xs @ ys @ drop (max a b) xs"

section \<open>The record codec (\<open>coodb/data/log_record.py\<close>)\<close>

definition HEADER_SIZE :: nat where
  "HEADER_SIZE = 13"

datatype LogRecordType = NORMAL | DELETED | TXNSTART | TXNFINISHED | TXNABORT

fun type_value :: "LogRecordType \<Rightarrow> nat" where
  "type_value NORMAL = 1"
| "type_value DELETED = 2"
| "type_value TXNSTART = 3"
| "type_value TXNFINISHED = 4"
| "type_value TXNABORT = 5"

text \<open>\<open>LogRecordType(v)\<close>: the member with that value; \<open>None\<close> stands for its \<open>ValueError\<close>.\<close>

definition LogRecordType_of :: "nat \<Rightarrow> LogRecordType option" where
  "LogRecordType_of v =
     (if v = 1 then Some NORMAL
      else if v = 2 then Some DELETED
      else if v = 3 then Some TXNSTART
      else if v = 4 then Some TXNFINISHED
      else if v = 5 then Some TXNABORT
      else None)"

record LogRecord =
  rec_key :: bytes
  rec_value :: bytes
  rec_type :: LogRecordType

text \<open>
  \<open>LogRecord.encode\<close>: a zeroed buffer of the total size, the type byte at index 4, the
  two big-endian lengths at 5 and 9, key and value copied in after the header, and last
  the CRC of everything from offset 4 packed at the front.
\<close>

definition LogRecord_encode :: "LogRecord \<Rightarrow> error + (bytes \<times> nat)" where
  "LogRecord_encode r =
     (let key_size = length (rec_key r);
          value_size = length (rec_value r);
          total_size = HEADER_SIZE + key_size + value_size;
          enc0 = replicate total_size (0 :: byte);
          enc1 = enc0[4 := of_nat (type_value (rec_type r))]
      in case pack_into Big 4 enc1 5 (int key_size) of
           Inl e \<Rightarrow> Inl e
         | Inr enc2 \<Rightarrow>
             (case pack_into Big 4 enc2 9 (int value_size) of
                Inl e \<Rightarrow> Inl e
              | Inr enc3 \<Rightarrow>
                  (let pos = HEADER_SIZE;
                       enc4 = slice_assign enc3 pos (pos + key_size) (rec_key r);
                       pos' = pos + key_size;
                       enc5 = slice_assign enc4 pos' (pos' + value_size) (rec_value r);
                       crc = zlib_crc32 (drop 4 enc5)
                   in case pack_into Big 4 enc5 0 crc of
                        Inl e \<Rightarrow> Inl e
                      | Inr enc6 \<Rightarrow> Inr (enc6, total_size))))"

text \<open>
  \<open>LogRecord.decode\<close>: \<open>None\<close> when the data is shorter than a header, when the stored
  CRC differs from the computed one, or when the type byte is no member of the
  enumeration (the \<open>ValueError\<close> is caught).
\<close>

definition LogRecord_decode :: "bytes \<Rightarrow> LogRecord option" where
  "LogRecord_decode data =
     (if length data < HEADER_SIZE then None
      else
        let crc = unpack_uint Big (slice data 0 4);
            record_type = unat (data ! 4);
            key_size = nat (unpack_uint Big (slice data 5 9));
            value_size = nat (unpack_uint Big (slice data 9 13));
            computed_crc = zlib_crc32 (drop 4 data)
        in if crc \<noteq> computed_crc then None
           else
             let key = slice data HEADER_SIZE (HEADER_SIZE + key_size);
                 val = (if value_size > 0
                        then slice data (HEADER_SIZE + key_size)
                               (HEADER_SIZE + key_size + value_size)
                        else [])
             in case LogRecordType_of record_type of
                  None \<Rightarrow> None
                | Some t \<Rightarrow> Some \<lparr>rec_key = key, rec_value = val, rec_type = t\<rparr>)"

subsection \<open>Record positions\<close>

record LogRecordPos =
  pos_file_id :: int
  pos_offset :: int
  pos_size :: int

text \<open>
  \<open>LogRecordPos.encode\<close> is \<open>struct.pack("=IQI", file_id, offset, size)\<close>: standard sizes,
  no padding, and the byte order of the host, which is a parameter here.
\<close>

definition LogRecordPos_encode :: "endian \<Rightarrow> LogRecordPos \<Rightarrow> error + bytes" where
  "LogRecordPos_encode native p =
     (case pack_uint native 4 (pos_file_id p) of
        Inl e \<Rightarrow> Inl e
      | Inr a \<Rightarrow>
          (case pack_uint native 8 (pos_offset p) of
             Inl e \<Rightarrow> Inl e
           | Inr b \<Rightarrow>
               (case pack_uint native 4 (pos_size p) of
                  Inl e \<Rightarrow> Inl e
                | Inr c \<Rightarrow> Inr (a @ b @ c))))"

text \<open>
  \<open>struct.unpack("=IQI", data)\<close> raises unless the data has exactly 16 bytes.
\<close>

definition unpack_IQI :: "endian \<Rightarrow> bytes \<Rightarrow> (int \<times> int \<times> int) option" where
  "unpack_IQI native data =
     (if length data \<noteq> 16 then None
      else Some (unpack_uint native (slice data 0 4),
                 unpack_uint native (slice data 4 12),
                 unpack_uint native (slice data 12 16)))"

text \<open>\<open>LogRecordPos.decode\<close>: any failure of the unpacking becomes a \<open>ValueError\<close>.\<close>

definition LogRecordPos_decode :: "endian \<Rightarrow> bytes \<Rightarrow> error + LogRecordPos" where
  "LogRecordPos_decode native data =
     (case unpack_IQI native data of
        None \<Rightarrow> Inl ValueError
      | Some (file_id, offset, sz) \<Rightarrow>
          Inr \<lparr>pos_file_id = file_id, pos_offset = offset, pos_size = sz\<rparr>)"

text \<open>Everything of an encoded record after its CRC field.\<close>

definition record_body :: "LogRecord \<Rightarrow> bytes" where
  "record_body r =
     of_nat (type_value (rec_type r))
       # uint_bytes Big 4 (int (length (rec_key r)))
       @ uint_bytes Big 4 (int (length (rec_value r)))
       @ rec_key r @ rec_value r"

text \<open>The bytes of an encoded record: the big-endian CRC of the body, then the body.\<close>

definition encoded :: "LogRecord \<Rightarrow> bytes" where
  "encoded r = uint_bytes Big 4 (zlib_crc32 (record_body r)) @ record_body r"

section \<open>Text: decimal numbers and file names\<close>

text \<open>
  A \<open>str\<close> is a sequence of code points.  File names and the text the program itself
  produces are written as a \<open>string\<close>, whose characters are the code points below 256;
  text decoded from a file is a list of code points.  \<open>encode_str\<close> is \<open>s.encode()\<close> on
  the text of \<open>str(i)\<close> and of literals, one byte for each character.
\<close>

definition encode_str :: "string \<Rightarrow> bytes" where
  "encode_str s = map of_char s"

text \<open>
  \<open>b.decode()\<close>: strict UTF-8.  A sequence that is truncated, has a wrong continuation
  byte, is longer than needed, encodes a surrogate or lies above \<open>U+10FFFF\<close> raises
  \<open>UnicodeDecodeError\<close>, a \<open>ValueError\<close>: \<open>None\<close> here.
\<close>

definition is_cont :: "byte \<Rightarrow> bool" where
  "is_cont b = (128 \<le> unat b \<and> unat b < 192)"

fun utf8_decode :: "bytes \<Rightarrow> nat list option" where
  "utf8_decode [] = Some []"
| "utf8_decode (b # bs) =
     (let x = unat b
      in if x < 128 then map_option ((#) x) (utf8_decode bs)
         else if 194 \<le> x \<and> x < 224 then
           (case bs of
              b1 # r \<Rightarrow>
                if is_cont b1
                then map_option ((#) ((x - 192) * 64 + (unat b1 - 128))) (utf8_decode r)
                else None
            | _ \<Rightarrow> None)
         else if 224 \<le> x \<and> x < 240 then
           (case bs of
              b1 # b2 # r \<Rightarrow>
                let c = (x - 224) * 4096 + (unat b1 - 128) * 64 + (unat b2 - 128)
                in if is_cont b1 \<and> is_cont b2 \<and> 2048 \<le> c \<and> (c < 55296 \<or> 57343 < c)
                   then map_option ((#) c) (utf8_decode r)
                   else None
            | _ \<Rightarrow> None)
         else if 240 \<le> x \<and> x < 245 then
           (case bs of
              b1 # b2 # b3 # r \<Rightarrow>
                let c = (x - 240) * 262144 + (unat b1 - 128) * 4096 + (unat b2 - 128) * 64
                          + (unat b3 - 128)
                in if is_cont b1 \<and> is_cont b2 \<and> is_cont b3 \<and> 65536 \<le> c \<and> c < 1114112
                   then map_option ((#) c) (utf8_decode r)
                   else None
            | _ \<Rightarrow> None)
         else None)"

definition digit_char :: "nat \<Rightarrow> char" where
  "digit_char d = ''0123456789'' ! d"

fun str_nat :: "nat \<Rightarrow> string" where
  "str_nat n = (if n < 10 then [digit_char n] else str_nat (n div 10) @ [digit_char (n mod 10)])"

declare str_nat.simps [simp del]

text \<open>\<open>str(i)\<close> of an integer.\<close>

definition str_int :: "int \<Rightarrow> string" where
  "str_int i = (if i < 0 then CHR ''-'' # str_nat (nat (- i)) else str_nat (nat i))"

text \<open>The format \<open>{i:09d}\<close>: zero padding to nine characters, the sign first.\<close>

definition fmt09 :: "int \<Rightarrow> string" where
  "fmt09 i =
     (if i < 0
      then CHR ''-'' # replicate (8 - length (str_nat (nat (- i)))) CHR ''0'' @ str_nat (nat (- i))
      else replicate (9 - length (str_nat (nat i))) CHR ''0'' @ str_nat (nat i))"

subsection \<open>\<open>int(s)\<close> of a \<open>str\<close>\<close>

text \<open>
  The interpreter first maps the text to ASCII: a code point below 127 stays, white
  space becomes a blank, a decimal digit of any script becomes its ASCII digit, and
  the first code point that is none of these becomes a question mark, which ends the
  text.  The decimal digits are those of the Unicode database of CPython 3.11 (Unicode
  14.0): 66 runs of ten code points, given by their zeros.
\<close>

definition unicode_space :: "nat \<Rightarrow> bool" where
  "unicode_space c =
     (c \<in> {9, 10, 11, 12, 13, 28, 29, 30, 31, 32, 133, 160, 5760, 8192, 8193, 8194, 8195,
            8196, 8197, 8198, 8199, 8200, 8201, 8202, 8232, 8233, 8239, 8287, 12288})"

definition decimal_zeros :: "nat list" where
  "decimal_zeros =
     [
      0x30, 0x660, 0x6F0, 0x7C0, 0x966, 0x9E6, 0xA66, 0xAE6,
      0xB66, 0xBE6, 0xC66, 0xCE6, 0xD66, 0xDE6, 0xE50, 0xED0,
      0xF20, 0x1040, 0x1090, 0x17E0, 0x1810, 0x1946, 0x19D0, 0x1A80,
      0x1A90, 0x1B50, 0x1BB0, 0x1C40, 0x1C50, 0xA620, 0xA8D0, 0xA900,
      0xA9D0, 0xA9F0, 0xAA50, 0xABF0, 0xFF10, 0x104A0, 0x10D30, 0x11066,
      0x110F0, 0x11136, 0x111D0, 0x112F0, 0x11450, 0x114D0, 0x11650, 0x116C0,
      0x11730, 0x118E0, 0x11950, 0x11C50, 0x11D50, 0x11DA0, 0x16A60, 0x16AC0,
      0x16B50, 0x1D7CE, 0x1D7D8, 0x1D7E2, 0x1D7EC, 0x1D7F6, 0x1E140, 0x1E2F0,
      0x1E950, 0x1FBF0]"

definition unicode_decimal :: "nat \<Rightarrow> nat option" where
  "unicode_decimal c =
     (case filter (\<lambda>z. z \<le> c \<and> c < z + 10) decimal_zeros of
        [] \<Rightarrow> None
      | z # zs \<Rightarrow> Some (c - z))"

fun to_ascii :: "nat list \<Rightarrow> nat list" where
  "to_ascii [] = []"
| "to_ascii (c # cs) =
     (if c < 127 then c # to_ascii cs
      else if unicode_space c then 32 # to_ascii cs
      else case unicode_decimal c of
             None \<Rightarrow> [63]
           | Some d \<Rightarrow> (48 + d) # to_ascii cs)"

definition is_digit :: "nat \<Rightarrow> bool" where
  "is_digit c = (48 \<le> c \<and> c \<le> 57)"

text \<open>The white space that the number parser skips on either side.\<close>

definition is_space :: "nat \<Rightarrow> bool" where
  "is_space c = (c \<in> {9, 10, 11, 12, 13, 32})"

text \<open>
  The digits: decimal digits, where a single underscore may stand between two digits,
  and at most 4300 digits, the interpreter's default limit.
\<close>

fun dec_value :: "nat \<Rightarrow> nat list \<Rightarrow> nat option" where
  "dec_value acc [] = Some acc"
| "dec_value acc (c # cs) =
     (if is_digit c then dec_value (10 * acc + (c - 48)) cs
      else if c = 95 \<and> cs \<noteq> [] \<and> is_digit (hd cs) then dec_value acc cs
      else None)"

definition MAX_STR_DIGITS :: nat where
  "MAX_STR_DIGITS = 4300"

definition py_digits :: "nat list \<Rightarrow> nat option" where
  "py_digits s =
     (case s of
        [] \<Rightarrow> None
      | c # cs \<Rightarrow>
          if is_digit c \<and> length (filter is_digit s) \<le> MAX_STR_DIGITS then dec_value 0 s
          else None)"

text \<open>
  \<open>int(s)\<close> for text given by its code points: surrounding white space is dropped, one
  sign is allowed, the rest are the digits; \<open>None\<close> stands for the \<open>ValueError\<close>.
\<close>

definition int_of_text :: "nat list \<Rightarrow> int option" where
  "int_of_text s =
     (let t = rev (dropWhile is_space (rev (dropWhile is_space (to_ascii s))))
      in case t of
           [] \<Rightarrow> None
         | c # cs \<Rightarrow>
             if c = 45 then map_option (\<lambda>n. - int n) (py_digits cs)
             else if c = 43 then map_option int (py_digits cs)
             else map_option int (py_digits t))"

text \<open>\<open>int(s)\<close> for a \<open>string\<close>.\<close>

definition py_int :: "string \<Rightarrow> int option" where
  "py_int s = int_of_text (map of_char s)"

definition startswith :: "string \<Rightarrow> string \<Rightarrow> bool" where
  "startswith s p = (take (length p) s = p)"

definition endswith :: "string \<Rightarrow> string \<Rightarrow> bool" where
  "endswith s p = (length p \<le> length s \<and> drop (length s - length p) s = p)"

text \<open>\<open>name.split('.')[0]\<close>: the part before the first dot.\<close>

definition split_dot_first :: "string \<Rightarrow> string" where
  "split_dot_first name = takeWhile (\<lambda>c. c \<noteq> CHR ''.'') name"

section \<open>Files and the two I/O backends (\<open>coodb/fio/io_manager.py\<close>)\<close>

text \<open>
  A directory is an association list from file names to contents; \<open>os.listdir\<close> returns
  its names in the order of the list, which is arbitrary.  The operating system is
  taken to be reliable: a write stores all its bytes and no I/O error is raised.
\<close>

type_synonym directory = "(string \<times> bytes) list"

definition listdir :: "directory \<Rightarrow> string list" where
  "listdir d = map fst d"

definition file_exists :: "directory \<Rightarrow> string \<Rightarrow> bool" where
  "file_exists d name = (map_of d name \<noteq> None)"

definition file_content :: "directory \<Rightarrow> string \<Rightarrow> bytes" where
  "file_content d name = (case map_of d name of None \<Rightarrow> [] | Some c \<Rightarrow> c)"

text \<open>\<open>open(path, "ab+")\<close> creates the file when it is missing and keeps it otherwise.\<close>

definition open_append :: "directory \<Rightarrow> string \<Rightarrow> directory" where
  "open_append d name = (if file_exists d name then d else AList.update name [] d)"

text \<open>\<open>open(path, "wb")\<close> followed by one write: the file holds exactly the data.\<close>

definition write_file :: "directory \<Rightarrow> string \<Rightarrow> bytes \<Rightarrow> directory" where
  "write_file d name c = AList.update name c d"

definition remove_file :: "directory \<Rightarrow> string \<Rightarrow> directory" where
  "remove_file d name = AList.delete name d"

text \<open>A write through a handle opened for appending lands at the end of the file.\<close>

definition append_file :: "directory \<Rightarrow> string \<Rightarrow> bytes \<Rightarrow> directory" where
  "append_file d name c = AList.update name (file_content d name @ c) d"

subsection \<open>\<open>FileIOManager\<close>\<close>

text \<open>
  The buffered backend over the content of its file.  \<open>read\<close> seeks and reads into the
  caller's buffer: it returns the count and the buffer; \<open>write\<close> returns the count and
  the new content.
\<close>

definition FileIO_read :: "bytes \<Rightarrow> bytes \<Rightarrow> nat \<Rightarrow> nat \<times> bytes" where
  "FileIO_read file b offset =
     (let data = take (length b) (drop offset file)
      in (length data, data @ drop (length data) b))"

definition FileIO_write :: "bytes \<Rightarrow> bytes \<Rightarrow> nat \<times> bytes" where
  "FileIO_write file b = (length b, file @ b)"

definition FileIO_size :: "bytes \<Rightarrow> nat" where
  "FileIO_size file = length file"

subsection \<open>\<open>MMapIOManager\<close>\<close>

text \<open>
  The memory-mapped backend: the file behind the descriptor, the mapping object and
  \<open>size_value\<close>.  The attribute \<open>mmap\<close> is \<open>None\<close>, or a mapping object that is open with
  a length or has been closed.  The mapping is shared, so a write through it changes
  the file.  Creating a mapping longer than the file extends the file on Windows and
  raises \<open>ValueError\<close> elsewhere.
\<close>

datatype platform = Windows | Posix

datatype mmap_obj = Mapped nat | Closed

record MMapIOManager =
  mm_file :: bytes
  mm_mmap :: "mmap_obj option"
  mm_size_value :: nat

definition mmap_create :: "platform \<Rightarrow> bytes \<Rightarrow> nat \<Rightarrow> error + bytes" where
  "mmap_create pl file n =
     (if n \<le> length file then Inr file
      else case pl of
             Windows \<Rightarrow> Inr (file @ replicate (n - length file) 0)
           | Posix \<Rightarrow> Inl ValueError)"

definition MMapIO_init :: "bytes \<Rightarrow> MMapIOManager" where
  "MMapIO_init file =
     (let sz = length file
      in \<lparr>mm_file = file, mm_mmap = (if sz > 0 then Some (Mapped sz) else None),
          mm_size_value = sz\<rparr>)"

text \<open>
  The truth value of the attribute \<open>mmap\<close>: \<open>None\<close> is false, an open mapping is true
  when its length is not zero, and the length of a closed mapping raises \<open>ValueError\<close>.
\<close>

definition mmap_truth :: "mmap_obj option \<Rightarrow> error + bool" where
  "mmap_truth mo =
     (case mo of
        None \<Rightarrow> Inr False
      | Some (Mapped n) \<Rightarrow> Inr (n \<noteq> 0)
      | Some Closed \<Rightarrow> Inl ValueError)"

text \<open>
  \<open>_grow\<close>: the old mapping is closed; the descriptor is in append mode, so the single
  zero byte written after the seek lands at the end of the file; \<open>size_value\<close> is set;
  then the file is mapped again with the new size.  When that raises, the mapping stays
  closed, the byte stays in the file and \<open>size_value\<close> stays at the new size.
\<close>

definition MMapIO_grow :: "platform \<Rightarrow> MMapIOManager \<Rightarrow> nat \<Rightarrow> (error + unit) \<times> MMapIOManager" where
  "MMapIO_grow pl m new_size =
     (case mmap_truth (mm_mmap m) of
        Inl e \<Rightarrow> (Inl e, m)
      | Inr t \<Rightarrow>
          let m1 = (if t then m\<lparr>mm_mmap := Some Closed\<rparr> else m);
              m2 = m1\<lparr>mm_file := mm_file m1 @ [0], mm_size_value := new_size\<rparr>
          in (case mmap_create pl (mm_file m2) new_size of
                Inl e \<Rightarrow> (Inl e, m2)
              | Inr file2 \<Rightarrow>
                  (Inr (), m2\<lparr>mm_file := file2, mm_mmap := Some (Mapped new_size)\<rparr>)))"

text \<open>
  \<open>read\<close>: nothing at or past \<open>size_value\<close> and nothing without a mapping; otherwise
  seek (a position past the mapping raises \<open>ValueError\<close>), read and copy into the buffer.
\<close>

definition MMapIO_read :: "MMapIOManager \<Rightarrow> bytes \<Rightarrow> nat \<Rightarrow> (error + nat) \<times> bytes" where
  "MMapIO_read m b offset =
     (if offset \<ge> mm_size_value m then (Inr 0, b)
      else case mmap_truth (mm_mmap m) of
             Inl e \<Rightarrow> (Inl e, b)
           | Inr t \<Rightarrow>
               if \<not> t then (Inr 0, b)
               else
                 (case mm_mmap m of
                    Some (Mapped n) \<Rightarrow>
                      if offset > n then (Inl ValueError, b)
                      else
                        let read_size = min (length b) (mm_size_value m - offset);
                            data = take read_size (drop offset (take n (mm_file m)))
                        in (Inr read_size, slice_assign b 0 read_size data)
                  | _ \<Rightarrow> (Inl ValueError, b)))"

text \<open>
  \<open>write\<close>: grow when the new size is larger, then seek and write through the mapping.
  With no mapping the seek is a call on \<open>None\<close>: an \<open>AttributeError\<close>; on a closed
  mapping, and for a position or data past the mapping, it is a \<open>ValueError\<close>.
\<close>

definition MMapIO_write :: "platform \<Rightarrow> MMapIOManager \<Rightarrow> bytes \<Rightarrow> (error + nat) \<times> MMapIOManager" where
  "MMapIO_write pl m b =
     (let current_size = mm_size_value m;
          new_size = current_size + length b
      in case (if current_size < new_size then MMapIO_grow pl m new_size else (Inr (), m)) of
           (Inl e, m1) \<Rightarrow> (Inl e, m1)
         | (Inr u, m1) \<Rightarrow>
             (case mm_mmap m1 of
                None \<Rightarrow> (Inl AttributeError, m1)
              | Some Closed \<Rightarrow> (Inl ValueError, m1)
              | Some (Mapped n) \<Rightarrow>
                  if current_size > n \<or> current_size + length b > n then (Inl ValueError, m1)
                  else
                    (Inr (length b),
                     m1\<lparr>mm_file := take current_size (mm_file m1) @ b
                                      @ drop (current_size + length b) (mm_file m1)\<rparr>)))"

definition MMapIO_size :: "MMapIOManager \<Rightarrow> nat" where
  "MMapIO_size m = mm_size_value m"

section \<open>Segment files (\<open>coodb/data/data_file.py\<close>)\<close>

definition DATA_FILE_NAME_SUFFIX :: string where
  "DATA_FILE_NAME_SUFFIX = ''.data''"

text \<open>\<open>DataFile.get_data_file_path\<close>, relative to the data directory.\<close>

definition get_data_file_path :: "int \<Rightarrow> string" where
  "get_data_file_path file_id = fmt09 file_id @ DATA_FILE_NAME_SUFFIX"

text \<open>
  A \<open>DataFile\<close> object: its id and its write offset.  Its I/O manager is always the
  buffered one in the database, opened on the path of the id, so the content it reads
  and appends to is the directory's entry for that path.
\<close>

record DataFile =
  df_file_id :: int
  df_write_offset :: int

definition DataFile_init :: "directory \<Rightarrow> int \<Rightarrow> DataFile \<times> directory" where
  "DataFile_init d file_id =
     (let d' = open_append d (get_data_file_path file_id)
      in (\<lparr>df_file_id = file_id,
           df_write_offset = int (FileIO_size (file_content d' (get_data_file_path file_id)))\<rparr>,
          d'))"

definition SANITY_CAP :: int where
  "SANITY_CAP = 100 * 1024 * 1024"

text \<open>
  \<open>DataFile.read_log_record\<close> on the content of the file.  Every exception inside is
  caught and gives \<open>None\<close>; a negative offset makes the seek raise, so it gives
  \<open>None\<close> as well.  The accepted type bytes are those of \<open>NORMAL\<close>, \<open>DELETED\<close> and
  \<open>TXNFINISHED\<close>.
\<close>

definition read_log_record :: "bytes \<Rightarrow> int \<Rightarrow> (LogRecord \<times> int) option" where
  "read_log_record file offset =
     (let file_size = int (FileIO_size file)
      in if offset \<ge> file_size then None
         else if offset + int HEADER_SIZE > file_size then None
         else if offset < 0 then None
         else
           let (n, header_buf) = FileIO_read file (replicate HEADER_SIZE 0) (nat offset)
           in if n \<noteq> HEADER_SIZE then None
              else
                let crc = unpack_uint Big (slice header_buf 0 4);
                    record_type = unat (header_buf ! 4);
                    key_size = unpack_uint Big (slice header_buf 5 9);
                    value_size = unpack_uint Big (slice header_buf 9 13)
                in if record_type \<notin> set [type_value NORMAL, type_value DELETED,
                                          type_value TXNFINISHED] then None
                   else if key_size \<le> 0 \<or> value_size < 0 \<or> key_size + value_size > SANITY_CAP
                   then None
                   else
                     let total_size = int HEADER_SIZE + key_size + value_size
                     in if offset + total_size > file_size then None
                        else
                          let (m, record_buf) =
                                FileIO_read file (replicate (nat total_size) 0) (nat offset)
                          in if int m \<noteq> total_size then None
                             else
                               let computed_crc = zlib_crc32 (drop 4 record_buf)
                               in if crc \<noteq> computed_crc then None
                                  else
                                    let key = slice record_buf HEADER_SIZE
                                                (HEADER_SIZE + nat key_size);
                                        val = (if value_size > 0
                                               then drop (HEADER_SIZE + nat key_size) record_buf
                                               else [])
                                    in case LogRecordType_of record_type of
                                         None \<Rightarrow> None
                                       | Some t \<Rightarrow>
                                           Some (\<lparr>rec_key = key, rec_value = val, rec_type = t\<rparr>,
                                                 total_size))"

text \<open>
  \<open>DataFile.write_log_record\<close>: the encoded record is appended to the file and the write
  offset advances; the result is the offset before the write and the size.
\<close>

definition write_log_record ::
  "directory \<Rightarrow> DataFile \<Rightarrow> LogRecord \<Rightarrow> error + ((int \<times> int) \<times> DataFile \<times> directory)" where
  "write_log_record d df log_record =
     (let offset = df_write_offset df
      in case LogRecord_encode log_record of
           Inl e \<Rightarrow> Inl e
         | Inr (encoded_data, sz) \<Rightarrow>
             Inr ((offset, int sz),
                  df\<lparr>df_write_offset := df_write_offset df + int sz\<rparr>,
                  append_file d (get_data_file_path (df_file_id df)) encoded_data))"

text \<open>What a successful read guarantees; the replay loops terminate by it.\<close>

lemma read_log_record_SomeD:
  assumes "read_log_record file offset = Some (r, sz)"
  shows "0 \<le> offset \<and> 14 \<le> sz \<and> offset + sz \<le> int (length file)
         \<and> rec_type r \<in> {NORMAL, DELETED, TXNFINISHED}"
  using assms
  unfolding read_log_record_def Let_def FileIO_size_def HEADER_SIZE_def
  by (auto split: if_splits prod.splits option.splits simp: LogRecordType_of_def)

section \<open>The in-memory index\<close>

text \<open>
  Modelled from the spec: the index implementations (\<open>coodb/index/btree.py\<close> and its
  siblings) are not among the sources, only the interface \<open>Indexer\<close> is.  Following
  section 4.5 of the specification, an index is a mapping from keys to positions:
  \<open>put\<close> returns the previous position, \<open>get\<close> the position, \<open>delete\<close> the removed one.
\<close>

type_synonym indexer = "bytes \<rightharpoonup> LogRecordPos"

definition index_put :: "indexer \<Rightarrow> bytes \<Rightarrow> LogRecordPos \<Rightarrow> LogRecordPos option \<times> indexer" where
  "index_put idx k p = (idx k, idx(k \<mapsto> p))"

definition index_get :: "indexer \<Rightarrow> bytes \<Rightarrow> LogRecordPos option" where
  "index_get idx k = idx k"

definition index_delete :: "indexer \<Rightarrow> bytes \<Rightarrow> LogRecordPos option \<times> indexer" where
  "index_delete idx k = (idx k, idx(k := None))"

section \<open>The database (\<open>coodb/db.py\<close>)\<close>

datatype IndexType = BTREE | ART | BPTREE | SKIPLIST

text \<open>
  The options the database reads (\<open>coodb/options.py\<close> is not among the sources; the
  fields are those \<open>db.py\<close> and \<open>batch.py\<close> use).  The directory path is left out: the
  directory itself is part of the state.
\<close>

record Options =
  opt_max_file_size :: int
  opt_sync_writes :: bool
  opt_bytes_per_sync :: int
  opt_index_type :: IndexType
  opt_mmap_at_startup :: bool

text \<open>
  What the host decides: its byte order, and whether another process holds the lock on
  the directory.
\<close>

record Host =
  host_byteorder :: endian
  host_lock_busy :: bool

text \<open>
  The state of a \<open>DB\<close> object together with its directory.  \<open>seq_no\<close> is \<open>None\<close> when
  the Python attribute is \<open>None\<close>.  The flags \<open>is_merging\<close>, \<open>is_initial\<close> and
  \<open>seq_no_file_exists\<close> are left out: no operation modelled here reads them.  \<open>sync\<close>
  changes nothing that a later operation of the same process can see.
\<close>

record DB =
  db_options :: Options
  db_dir :: directory
  db_active_file :: "DataFile option"
  db_older_files :: "int \<rightharpoonup> DataFile"
  db_index :: indexer
  db_file_ids :: "int list"
  db_is_closed :: bool
  db_seq_no :: "int option"
  db_bytes_write :: int
  db_reclaim_size :: int

definition FILE_LOCK_NAME :: string where
  "FILE_LOCK_NAME = ''flock''"

definition SEQ_NO_FILE :: string where
  "SEQ_NO_FILE = ''seq_no.data''"

definition MERGE_FINISHED_FILE :: string where
  "MERGE_FINISHED_FILE = ''merge_finished.data''"

definition MERGE_FILENAME :: string where
  "MERGE_FILENAME = ''merge.data''"

definition HINT_FILE :: string where
  "HINT_FILE = ''hint-index''"

subsection \<open>\<open>load_data_files\<close>\<close>

definition data_file_names :: "directory \<Rightarrow> string list" where
  "data_file_names d =
     filter (\<lambda>f. endswith f DATA_FILE_NAME_SUFFIX
                 \<and> \<not> (startswith f ''seq_no'' \<or> startswith f ''hint-index''
                         \<or> startswith f ''merge-finished''))
       (listdir d)"

text \<open>\<open>int(name.split('.')[0])\<close> for every name; \<open>None\<close> is the \<open>ValueError\<close> of the first failure.\<close>

fun parse_file_ids :: "string list \<Rightarrow> int list option" where
  "parse_file_ids [] = Some []"
| "parse_file_ids (name # names) =
     (case py_int (split_dot_first name) of
        None \<Rightarrow> None
      | Some i \<Rightarrow> map_option ((#) i) (parse_file_ids names))"

fun open_older :: "directory \<Rightarrow> int list \<Rightarrow> (int \<rightharpoonup> DataFile) \<Rightarrow> (int \<rightharpoonup> DataFile) \<times> directory" where
  "open_older d [] older = (older, d)"
| "open_older d (file_id # file_ids) older =
     (let (df, d') = DataFile_init d file_id
      in open_older d' file_ids (older(file_id \<mapsto> df)))"

definition load_data_files :: "DB \<Rightarrow> error + DB" where
  "load_data_files db =
     (case parse_file_ids (data_file_names (db_dir db)) of
        None \<Rightarrow> Inl ValueError
      | Some ids \<Rightarrow>
          let file_ids = sort ids
          in if file_ids = [] then
               let (df, d') = DataFile_init (db_dir db) 1
               in Inr (db\<lparr>db_file_ids := [1], db_active_file := Some df, db_dir := d'\<rparr>)
             else
               let (older, d1) = open_older (db_dir db) (butlast file_ids) (db_older_files db);
                   (df, d2) = DataFile_init d1 (last file_ids)
               in Inr (db\<lparr>db_file_ids := file_ids, db_older_files := older,
                          db_active_file := Some df, db_dir := d2\<rparr>))"

subsection \<open>\<open>_load_merge_files\<close>\<close>

fun remove_segments :: "directory \<Rightarrow> int list \<Rightarrow> directory" where
  "remove_segments d [] = d"
| "remove_segments d (file_id # file_ids) =
     remove_segments (if file_id > 1 then remove_file d (get_data_file_path file_id) else d) file_ids"

definition load_merge_files :: "DB \<Rightarrow> DB" where
  "load_merge_files db =
     (if \<not> file_exists (db_dir db) MERGE_FINISHED_FILE then db
      else
        let data = file_content (db_dir db) MERGE_FINISHED_FILE
        in if data = [] then db
           else case LogRecord_decode data of
                  None \<Rightarrow> db
                | Some r \<Rightarrow>
                    db\<lparr>db_dir := remove_file (remove_segments (db_dir db) (db_file_ids db))
                                   MERGE_FINISHED_FILE,
                       db_file_ids := [1]\<rparr>)"

subsection \<open>\<open>_load_index_from_hint_file\<close>\<close>

text \<open>
  The hint file is opened as \<open>DataFile(dir, 0)\<close>, whose I/O manager is bound to the path
  of segment 0 when the object is made; assigning \<open>file_path\<close> afterwards does not
  reopen it, so the records are read from \<open>000000000.data\<close>.
\<close>

function load_hint_records :: "endian \<Rightarrow> bytes \<Rightarrow> int \<Rightarrow> indexer \<Rightarrow> indexer" where
  "load_hint_records native file offset idx =
     (case read_log_record file offset of
        None \<Rightarrow> idx
      | Some (r, sz) \<Rightarrow>
          if rec_value r = [] then load_hint_records native file (offset + sz) idx
          else
            (case unpack_IQI native (rec_value r) of
               None \<Rightarrow> load_hint_records native file (offset + sz) idx
             | Some (file_id, record_offset, record_size) \<Rightarrow>
                 load_hint_records native file (offset + sz)
                   (snd (index_put idx (rec_key r)
                           \<lparr>pos_file_id = file_id, pos_offset = record_offset,
                            pos_size = record_size\<rparr>))))"
  by pat_completeness auto
termination
  by (relation "measure (\<lambda>(native, file, offset, idx). nat (int (length file) - offset))")
     (auto dest!: read_log_record_SomeD)

declare load_hint_records.simps [simp del]

definition load_index_from_hint_file :: "endian \<Rightarrow> DB \<Rightarrow> DB" where
  "load_index_from_hint_file native db =
     (if \<not> file_exists (db_dir db) HINT_FILE then db
      else
        let (hint_file, d') = DataFile_init (db_dir db) 0
        in db\<lparr>db_dir := d',
              db_index := load_hint_records native
                            (file_content d' (get_data_file_path (df_file_id hint_file))) 0
                            (db_index db)\<rparr>)"

subsection \<open>\<open>load_index_from_files\<close>\<close>

text \<open>The body of the replay loop for one record read at \<open>offset\<close> of segment \<open>file_id\<close>.\<close>

definition apply_loaded_record :: "int \<Rightarrow> int \<Rightarrow> int \<Rightarrow> LogRecord \<Rightarrow> DB \<Rightarrow> DB" where
  "apply_loaded_record file_id offset sz r db =
     (if rec_type r = NORMAL then
        let pos = \<lparr>pos_file_id = file_id, pos_offset = offset, pos_size = sz\<rparr>;
            (old_pos, idx) = index_put (db_index db) (rec_key r) pos;
            db1 = db\<lparr>db_index := idx\<rparr>;
            db2 = (case old_pos of
                     None \<Rightarrow> db1
                   | Some old \<Rightarrow> db1\<lparr>db_reclaim_size := db_reclaim_size db1 + pos_size old\<rparr>)
        in db2\<lparr>db_bytes_write := db_bytes_write db2 + int (length (rec_key r))
                                     + int (length (rec_value r))\<rparr>
      else if rec_type r = DELETED then
        let (old_pos, idx) = index_delete (db_index db) (rec_key r);
            db1 = db\<lparr>db_index := idx\<rparr>
        in (case old_pos of
              None \<Rightarrow> db1
            | Some old \<Rightarrow> db1\<lparr>db_reclaim_size := db_reclaim_size db1 + pos_size old\<rparr>)
      else db)"

function load_records :: "bytes \<Rightarrow> int \<Rightarrow> int \<Rightarrow> DB \<Rightarrow> DB" where
  "load_records file file_id offset db =
     (case read_log_record file offset of
        None \<Rightarrow> db
      | Some (r, sz) \<Rightarrow>
          load_records file file_id (offset + sz) (apply_loaded_record file_id offset sz r db))"
  by pat_completeness auto
termination
  by (relation "measure (\<lambda>(file, file_id, offset, db). nat (int (length file) - offset))")
     (auto dest!: read_log_record_SomeD)

declare load_records.simps [simp del]

definition load_index_from_files :: "DB \<Rightarrow> DB" where
  "load_index_from_files db =
     (if db_file_ids db = [] then db
      else
        foldl (\<lambda>d file_id.
                 case (if file_id = last (db_file_ids db) then db_active_file d
                       else db_older_files d file_id) of
                   None \<Rightarrow> d
                 | Some data_file \<Rightarrow>
                     load_records
                       (file_content (db_dir d) (get_data_file_path (df_file_id data_file)))
                       file_id 0 d)
          db (db_file_ids db))"

subsection \<open>The transaction counter\<close>

definition load_seq_no :: "directory \<Rightarrow> error + int option" where
  "load_seq_no d =
     (if \<not> file_exists d SEQ_NO_FILE then Inr (Some 0)
      else
        let data = file_content d SEQ_NO_FILE
        in if data = [] then Inr None
           else case LogRecord_decode data of
                  None \<Rightarrow> Inr None
                | Some r \<Rightarrow>
                    if rec_value r = [] then Inr None
                    else (case utf8_decode (rec_value r) of
                            None \<Rightarrow> Inl ValueError
                          | Some s \<Rightarrow>
                              (case int_of_text s of
                                 None \<Rightarrow> Inl ValueError
                               | Some i \<Rightarrow> Inr (Some i))))"

definition str_seq_no :: "int option \<Rightarrow> string" where
  "str_seq_no s = (case s of None \<Rightarrow> ''None'' | Some i \<Rightarrow> str_int i)"

definition save_seq_no :: "DB \<Rightarrow> error + directory" where
  "save_seq_no db =
     (case LogRecord_encode \<lparr>rec_key = encode_str ''seq_no'',
                             rec_value = encode_str (str_seq_no (db_seq_no db)),
                             rec_type = NORMAL\<rparr> of
        Inl e \<Rightarrow> Inl e
      | Inr (encoded_data, sz) \<Rightarrow> Inr (write_file (db_dir db) SEQ_NO_FILE encoded_data))"

subsection \<open>Opening and closing\<close>

definition DB_init :: "Options \<Rightarrow> directory \<Rightarrow> DB" where
  "DB_init options d =
     \<lparr>db_options = options, db_dir = d, db_active_file = None, db_older_files = Map.empty,
      db_index = Map.empty, db_file_ids = [], db_is_closed = False, db_seq_no = Some 0,
      db_bytes_write = 0, db_reclaim_size = 0\<rparr>"

text \<open>
  \<open>DB.__init__\<close>: take the lock (the lock file is created), load the segment files, the
  merge marker, the hint file and the segments' records; with the ordered index, load
  the transaction counter and set the active file's write offset to its size.  An
  exception on the way releases the lock and leaves no database.
\<close>

definition DB_open :: "Host \<Rightarrow> Options \<Rightarrow> directory \<Rightarrow> error + DB" where
  "DB_open host options d =
     (if host_lock_busy host then Inl ErrDatabaseIsUsing
      else
        case load_data_files (DB_init options (write_file d FILE_LOCK_NAME [])) of
          Inl e \<Rightarrow> Inl e
        | Inr db1 \<Rightarrow>
            let db2 = load_merge_files db1;
                db3 = load_index_from_hint_file (host_byteorder host) db2;
                db4 = load_index_from_files db3
            in if opt_index_type options = BTREE then
                 (case load_seq_no (db_dir db4) of
                    Inl e \<Rightarrow> Inl e
                  | Inr s \<Rightarrow>
                      Inr (db4\<lparr>db_seq_no := s,
                               db_active_file :=
                                 map_option
                                   (\<lambda>af. af\<lparr>df_write_offset :=
                                               int (FileIO_size (file_content (db_dir db4)
                                                     (get_data_file_path (df_file_id af))))\<rparr>)
                                   (db_active_file db4)\<rparr>))
               else Inr db4)"

text \<open>
  \<open>DB.close\<close>: with the ordered index the transaction counter is saved; the files are
  closed, the lock is released (its file removed) and the object is marked closed.
\<close>

definition DB_close :: "DB \<Rightarrow> DB" where
  "DB_close db =
     (if db_is_closed db then db
      else
        case (if opt_index_type (db_options db) = BTREE then save_seq_no db
              else Inr (db_dir db)) of
          Inl e \<Rightarrow> db\<lparr>db_is_closed := True\<rparr>
        | Inr d1 \<Rightarrow>
            db\<lparr>db_dir := remove_file d1 FILE_LOCK_NAME, db_active_file := None,
               db_older_files := Map.empty, db_is_closed := True\<rparr>)"

subsection \<open>The write path\<close>

text \<open>
  \<open>_append_log_record\<close>: roll over when there is no active file or its write offset has
  reached the maximum, then write.  The state is returned with the result, because a
  rollover stays in effect when the write raises.
\<close>

definition append_log_record :: "DB \<Rightarrow> LogRecord \<Rightarrow> (error + LogRecordPos) \<times> DB" where
  "append_log_record db log_record =
     (let db1 =
            (if db_active_file db = None
                \<or> df_write_offset (the (db_active_file db)) \<ge> opt_max_file_size (db_options db)
             then
               let new_file_id = (if db_file_ids db \<noteq> [] then last (db_file_ids db) + 1 else 1);
                   older = (case db_active_file db of
                              None \<Rightarrow> db_older_files db
                            | Some af \<Rightarrow> (db_older_files db)(df_file_id af \<mapsto> af));
                   (df, d') = DataFile_init (db_dir db) new_file_id
               in db\<lparr>db_older_files := older, db_active_file := Some df, db_dir := d',
                     db_file_ids := db_file_ids db @ [new_file_id]\<rparr>
             else db)
      in case db_active_file db1 of
           None \<Rightarrow> (Inl AttributeError, db1)
         | Some af \<Rightarrow>
             (case write_log_record (db_dir db1) af log_record of
                Inl e \<Rightarrow> (Inl e, db1)
              | Inr ((offset, sz), af', d') \<Rightarrow>
                  (Inr \<lparr>pos_file_id = df_file_id af', pos_offset = offset, pos_size = sz\<rparr>,
                   db1\<lparr>db_active_file := Some af', db_dir := d'\<rparr>)))"

definition sync_policy :: "DB \<Rightarrow> DB" where
  "sync_policy db =
     (if opt_sync_writes (db_options db)
         \<or> (opt_bytes_per_sync (db_options db) > 0
             \<and> db_bytes_write db \<ge> opt_bytes_per_sync (db_options db))
      then db\<lparr>db_bytes_write := 0\<rparr>
      else db)"

definition add_reclaim :: "LogRecordPos option \<Rightarrow> DB \<Rightarrow> DB" where
  "add_reclaim old_pos db =
     (case old_pos of
        None \<Rightarrow> db
      | Some old \<Rightarrow> db\<lparr>db_reclaim_size := db_reclaim_size db + pos_size old\<rparr>)"

definition DB_put :: "DB \<Rightarrow> bytes \<Rightarrow> bytes \<Rightarrow> (error + unit) \<times> DB" where
  "DB_put db key val =
     (if db_is_closed db then (Inl ErrDatabaseClosed, db)
      else if key = [] then (Inl ErrKeyIsEmpty, db)
      else
        case append_log_record db \<lparr>rec_key = key, rec_value = val, rec_type = NORMAL\<rparr> of
          (Inl e, db1) \<Rightarrow> (Inl e, db1)
        | (Inr pos, db1) \<Rightarrow>
            let (old_pos, idx) = index_put (db_index db1) key pos;
                db2 = add_reclaim old_pos (db1\<lparr>db_index := idx\<rparr>);
                db3 = db2\<lparr>db_bytes_write := db_bytes_write db2 + int (length key)
                                                + int (length val)\<rparr>
            in (Inr (), sync_policy db3))"

text \<open>
  \<open>_get_value_by_position\<close>; \<open>None\<close> is the Python \<open>None\<close>, and the exceptions it can
  raise (no active file, an unknown file id) are values.
\<close>

definition get_value_by_position :: "DB \<Rightarrow> LogRecordPos \<Rightarrow> error + bytes option" where
  "get_value_by_position db pos =
     (case db_active_file db of
        None \<Rightarrow> Inl AttributeError
      | Some af \<Rightarrow>
          (case (if pos_file_id pos = df_file_id af then Some af
                 else db_older_files db (pos_file_id pos)) of
             None \<Rightarrow> Inl ErrDataFileNotFound
           | Some data_file \<Rightarrow>
               (case read_log_record
                       (file_content (db_dir db) (get_data_file_path (df_file_id data_file)))
                       (pos_offset pos) of
                  None \<Rightarrow> Inr None
                | Some (r, sz) \<Rightarrow>
                    if rec_type r = DELETED then Inr None else Inr (Some (rec_value r)))))"

definition DB_get :: "DB \<Rightarrow> bytes \<Rightarrow> error + bytes option" where
  "DB_get db key =
     (if db_is_closed db then Inl ErrDatabaseClosed
      else if key = [] then Inl ErrKeyIsEmpty
      else
        case index_get (db_index db) key of
          None \<Rightarrow> Inr None
        | Some pos \<Rightarrow>
            (case get_value_by_position db pos of
               Inl e \<Rightarrow> Inr None
             | Inr v \<Rightarrow> Inr v))"

definition DB_delete :: "DB \<Rightarrow> bytes \<Rightarrow> (error + unit) \<times> DB" where
  "DB_delete db key =
     (if db_is_closed db then (Inl ErrDatabaseClosed, db)
      else if key = [] then (Inl ErrKeyIsEmpty, db)
      else if index_get (db_index db) key = None then (Inr (), db)
      else
        case append_log_record db \<lparr>rec_key = key, rec_value = [], rec_type = DELETED\<rparr> of
          (Inl e, db1) \<Rightarrow> (Inl e, db1)
        | (Inr pos, db1) \<Rightarrow>
            let (old_pos, idx) = index_delete (db_index db1) key;
                db2 = add_reclaim old_pos (db1\<lparr>db_index := idx\<rparr>);
                db3 = db2\<lparr>db_bytes_write := db_bytes_write db2 + int (length key)\<rparr>
            in (Inr (), sync_policy db3))"

section \<open>Batches (\<open>coodb/batch.py\<close>)\<close>

text \<open>
  A batch buffers its writes in a Python \<open>dict\<close>, which keeps the order of first
  insertion and one entry per key: an association list updated in place.  A value of
  \<open>None\<close> stands for a delete.
\<close>

record Batch =
  b_is_committed :: bool
  b_writes :: "(bytes \<times> bytes option) list"

definition Batch_init :: Batch where
  "Batch_init = \<lparr>b_is_committed = False, b_writes = []\<rparr>"

definition Batch_put :: "Batch \<Rightarrow> bytes \<Rightarrow> bytes \<Rightarrow> error + Batch" where
  "Batch_put b key val =
     (if b_is_committed b then Inl ErrBatchClosed
      else if key = [] then Inl ValueError
      else Inr (b\<lparr>b_writes := AList.update key (Some val) (b_writes b)\<rparr>))"

definition Batch_delete :: "Batch \<Rightarrow> bytes \<Rightarrow> error + Batch" where
  "Batch_delete b key =
     (if b_is_committed b then Inl ErrBatchClosed
      else if key = [] then Inl ValueError
      else Inr (b\<lparr>b_writes := AList.update key None (b_writes b)\<rparr>))"

definition write_record :: "bytes \<Rightarrow> bytes option \<Rightarrow> LogRecord" where
  "write_record key val =
     (case val of
        None \<Rightarrow> \<lparr>rec_key = key, rec_value = [], rec_type = DELETED\<rparr>
      | Some v \<Rightarrow> \<lparr>rec_key = key, rec_value = v, rec_type = NORMAL\<rparr>)"

text \<open>
  The loop over \<open>writes.items()\<close>: one record appended per entry, its position and
  whether it is a put collected in \<open>positions\<close>; the first exception ends the loop.
\<close>

fun append_writes ::
  "DB \<Rightarrow> (bytes \<times> bytes option) list \<Rightarrow> (bytes \<times> LogRecordPos \<times> bool) list
     \<Rightarrow> (error + (bytes \<times> LogRecordPos \<times> bool) list) \<times> DB" where
  "append_writes db [] positions = (Inr positions, db)"
| "append_writes db ((key, val) # ws) positions =
     (case append_log_record db (write_record key val) of
        (Inl e, db1) \<Rightarrow> (Inl e, db1)
      | (Inr pos, db1) \<Rightarrow>
          append_writes db1 ws (AList.update key (pos, val \<noteq> None) positions))"

text \<open>The loop over \<open>positions.items()\<close> that updates the index.\<close>

fun apply_positions :: "DB \<Rightarrow> (bytes \<times> LogRecordPos \<times> bool) list \<Rightarrow> DB" where
  "apply_positions db [] = db"
| "apply_positions db ((key, pos, is_put) # ps) =
     apply_positions
       (if is_put then
          let (old_pos, idx) = index_put (db_index db) key pos
          in add_reclaim old_pos (db\<lparr>db_index := idx\<rparr>)
        else
          let (old_pos, idx) = index_delete (db_index db) key
          in add_reclaim old_pos (db\<lparr>db_index := idx\<rparr>))
       ps"

definition txn_marker :: "int \<Rightarrow> LogRecordType \<Rightarrow> LogRecord" where
  "txn_marker txn_id t = \<lparr>rec_key = encode_str (str_int txn_id), rec_value = [], rec_type = t\<rparr>"

text \<open>The exception handler of \<open>commit\<close>: a best-effort \<open>TXNABORT\<close> marker.\<close>

definition abort_marker :: "int \<Rightarrow> DB \<Rightarrow> DB" where
  "abort_marker txn_id db =
     (if txn_id > 0 then snd (append_log_record db (txn_marker txn_id TXNABORT)) else db)"

text \<open>
  \<open>Batch.commit\<close>.  The transaction id is \<open>seq_no + 1\<close> with the ordered index and
  \<open>seq_no\<close> otherwise; markers are written only for a positive id.  The index is
  updated after all records and the finishing marker are appended.
\<close>

definition Batch_commit :: "Batch \<Rightarrow> DB \<Rightarrow> (error + unit) \<times> Batch \<times> DB" where
  "Batch_commit b db =
     (if b_is_committed b then (Inl ErrBatchClosed, b, db)
      else if b_writes b = [] then (Inr (), b\<lparr>b_is_committed := True\<rparr>, db)
      else
        case db_seq_no db of
          None \<Rightarrow> (Inl TypeError, b, db)
        | Some seq_no \<Rightarrow>
            let txn_id = (if opt_index_type (db_options db) = BTREE then seq_no + 1 else seq_no);
                (r1, db1) =
                  (if txn_id > 0 then
                     (case append_log_record db (txn_marker txn_id TXNSTART) of
                        (Inl e, d) \<Rightarrow> (Inl e, d)
                      | (Inr p, d) \<Rightarrow> (Inr (), d))
                   else (Inr (), db))
            in case r1 of
                 Inl e \<Rightarrow> (Inl e, b, abort_marker txn_id db1)
               | Inr u \<Rightarrow>
                   (case append_writes db1 (b_writes b) [] of
                      (Inl e, db2) \<Rightarrow> (Inl e, b, abort_marker txn_id db2)
                    | (Inr positions, db2) \<Rightarrow>
                        let (r3, db3) =
                              (if txn_id > 0 then
                                 (case append_log_record db2 (txn_marker txn_id TXNFINISHED) of
                                    (Inl e, d) \<Rightarrow> (Inl e, d)
                                  | (Inr p, d) \<Rightarrow> (Inr (), d\<lparr>db_seq_no := Some txn_id\<rparr>))
                               else (Inr (), db2))
                        in case r3 of
                             Inl e \<Rightarrow> (Inl e, b, abort_marker txn_id db3)
                           | Inr u' \<Rightarrow>
                               (Inr (), b\<lparr>b_is_committed := True\<rparr>,
                                apply_positions db3 positions)))"

section \<open>Predicates on database states\<close>

text \<open>
  A database is ready for writing when it is open, every immutable file is filed under
  its own id, and the active file's write offset is the size of its file.
\<close>

definition older_ok :: "DB \<Rightarrow> bool" where
  "older_ok db = (\<forall>fid df. db_older_files db fid = Some df \<longrightarrow> df_file_id df = fid)"

definition db_ready :: "DB \<Rightarrow> bool" where
  "db_ready db =
     (\<not> db_is_closed db \<and> older_ok db
      \<and> (case db_active_file db of
            None \<Rightarrow> False
          | Some af \<Rightarrow>
              df_write_offset af
                = int (length (file_content (db_dir db) (get_data_file_path (df_file_id af))))))"

text \<open>The file id names the active file or one of the immutable files.\<close>

definition resolves :: "DB \<Rightarrow> int \<Rightarrow> bool" where
  "resolves db fid =
     (case db_active_file db of
        None \<Rightarrow> False
      | Some af \<Rightarrow> fid = df_file_id af \<or> db_older_files db fid \<noteq> None)"

text \<open>The segment of the position holds the encoded record at the position's offset.\<close>

definition record_at :: "directory \<Rightarrow> LogRecordPos \<Rightarrow> LogRecord \<Rightarrow> bool" where
  "record_at d p r =
     (\<exists>pre post. file_content d (get_data_file_path (pos_file_id p)) = pre @ encoded r @ post
                 \<and> pos_offset p = int (length pre))"

text \<open>The index maps the key to a position that holds a put of the key with this value.\<close>

definition stored :: "DB \<Rightarrow> bytes \<Rightarrow> bytes \<Rightarrow> bool" where
  "stored db k v =
     (\<exists>p. db_index db k = Some p \<and> resolves db (pos_file_id p)
          \<and> record_at (db_dir db) p \<lparr>rec_key = k, rec_value = v, rec_type = NORMAL\<rparr>)"

text \<open>What a successful append leaves behind.\<close>

definition append_result :: "DB \<Rightarrow> LogRecord \<Rightarrow> LogRecordPos \<Rightarrow> DB \<Rightarrow> bool" where
  "append_result db r pos db' =
     (db_ready db' \<and> db_index db' = db_index db \<and> db_options db' = db_options db
      \<and> db_seq_no db' = db_seq_no db \<and> db_reclaim_size db' = db_reclaim_size db
      \<and> db_bytes_write db' = db_bytes_write db
      \<and> resolves db' (pos_file_id pos) \<and> record_at (db_dir db') pos r
      \<and> pos_size pos = int (length (encoded r))
      \<and> (\<forall>fid. resolves db fid \<longrightarrow> resolves db' fid)
      \<and> (\<forall>p r'. record_at (db_dir db) p r' \<longrightarrow> record_at (db_dir db') p r'))"

section \<open>Sequences of operations through the public interface\<close>

datatype db_op = Put bytes bytes | Delete bytes

text \<open>A caller running the operations in order; an exception ends the run.\<close>

fun run_ops :: "DB \<Rightarrow> db_op list \<Rightarrow> error + DB" where
  "run_ops db [] = Inr db"
| "run_ops db (Put k v # ops) =
     (case DB_put db k v of (Inl e, db') \<Rightarrow> Inl e | (Inr u, db') \<Rightarrow> run_ops db' ops)"
| "run_ops db (Delete k # ops) =
     (case DB_delete db k of (Inl e, db') \<Rightarrow> Inl e | (Inr u, db') \<Rightarrow> run_ops db' ops)"

text \<open>
  The last operation on each key: \<open>Some (Some v)\<close> after a put of \<open>v\<close>, \<open>Some None\<close>
  after a delete, \<open>None\<close> for a key no operation names.
\<close>

fun last_writes :: "(bytes \<rightharpoonup> bytes option) \<Rightarrow> db_op list \<Rightarrow> (bytes \<rightharpoonup> bytes option)" where
  "last_writes m [] = m"
| "last_writes m (Put k v # ops) = last_writes (m(k \<mapsto> Some v)) ops"
| "last_writes m (Delete k # ops) = last_writes (m(k \<mapsto> None)) ops"

text \<open>
  An operation within the limits of the format: a non-empty key, and key and value each
  shorter than \<open>2^32\<close> bytes, the range of the length fields.
\<close>

fun op_fits :: "db_op \<Rightarrow> bool" where
  "op_fits (Put k v) = (k \<noteq> [] \<and> length k < 2 ^ 32 \<and> length v < 2 ^ 32)"
| "op_fits (Delete k) = (k \<noteq> [] \<and> length k < 2 ^ 32)"

text \<open>The database tracks the map of last writes.\<close>

definition tracks :: "DB \<Rightarrow> (bytes \<rightharpoonup> bytes option) \<Rightarrow> bool" where
  "tracks db m =
     (\<forall>k. case m k of
            None \<Rightarrow> True
          | Some None \<Rightarrow> k \<noteq> [] \<and> db_index db k = None
          | Some (Some v) \<Rightarrow>
              k \<noteq> [] \<and> length k < 2 ^ 32 \<and> length v < 2 ^ 32 \<and> stored db k v)"

text \<open>
  What \<open>get\<close> gives for a key whose record is in place: the value, unless key and value
  together exceed the 100 MiB that \<open>read_log_record\<close> accepts.
\<close>

definition readable :: "bytes \<Rightarrow> bytes \<Rightarrow> bytes option" where
  "readable k v = (if int (length k) + int (length v) > SANITY_CAP then None else Some v)"

section \<open>Buffering and committing a batch\<close>

text \<open>The calls \<open>Batch.put\<close> and \<open>Batch.delete\<close> of a caller, in order.\<close>

fun batch_ops :: "Batch \<Rightarrow> db_op list \<Rightarrow> error + Batch" where
  "batch_ops b [] = Inr b"
| "batch_ops b (Put k v # ops) =
     (case Batch_put b k v of Inl e \<Rightarrow> Inl e | Inr b' \<Rightarrow> batch_ops b' ops)"
| "batch_ops b (Delete k # ops) =
     (case Batch_delete b k of Inl e \<Rightarrow> Inl e | Inr b' \<Rightarrow> batch_ops b' ops)"





text \<open>A record whose key and value fit the length fields of the format.\<close>

definition record_fits :: "LogRecord \<Rightarrow> bool" where
  "record_fits r = (length (rec_key r) < 2 ^ 32 \<and> length (rec_value r) < 2 ^ 32)"



section \<open>Concrete inputs for the witnesses and counterexamples\<close>

definition c7_options :: Options where
  "c7_options = \<lparr>opt_max_file_size = 1024, opt_sync_writes = False, opt_bytes_per_sync = 0,
                  opt_index_type = BTREE, opt_mmap_at_startup = False\<rparr>"

definition c7_put :: LogRecord where
  "c7_put = \<lparr>rec_key = [0x61], rec_value = [0x31], rec_type = NORMAL\<rparr>"

definition c7_del :: LogRecord where
  "c7_del = \<lparr>rec_key = [0x61], rec_value = [], rec_type = DELETED\<rparr>"

definition host0 :: Host where
  "host0 = \<lparr>host_byteorder = Little, host_lock_busy = False\<rparr>"

text \<open>
  A directory with one segment holding the put of key \<open>a\<close>; the database that opening
  it gives; and the same directory after \<open>merge\<close> has created its scratch file.
\<close>

definition c4_dir0 :: directory where
  "c4_dir0 = [(''000000001.data'', encoded c7_put)]"

definition c4_db :: DB where
  "c4_db = \<lparr>db_options = c7_options,
            db_dir = [(''000000001.data'', encoded c7_put), (''flock'', [])],
            db_active_file = Some \<lparr>df_file_id = 1, df_write_offset = 15\<rparr>,
            db_older_files = Map.empty,
            db_index = [[0x61] \<mapsto> \<lparr>pos_file_id = 1, pos_offset = 0, pos_size = 15\<rparr>],
            db_file_ids = [1], db_is_closed = False, db_seq_no = Some 0,
            db_bytes_write = 2, db_reclaim_size = 0\<rparr>"

definition c4_dir :: directory where
  "c4_dir = write_file c4_dir0 MERGE_FILENAME []"

text \<open>Scenario S1 of the specification, and a value of exactly 100 MiB.\<close>

definition c2_ops :: "db_op list" where
  "c2_ops = [Put [0x61] [0x31], Put [0x62] [0x32], Put [0x61] [0x33], Delete [0x62]]"

definition c2_big :: bytes where
  "c2_big = replicate (100 * 1024 * 1024) 0"


text \<open>
  A batch that crosses a rollover: options with a maximal segment size of 29 bytes, the
  states after opening an empty directory, after the commit, after closing and
  reopening, and after opening the directory with segment 2 cut before the finishing
  marker.
\<close>

definition c1_options :: Options where
  "c1_options = \<lparr>opt_max_file_size = 29, opt_sync_writes = False, opt_bytes_per_sync = 0,
                  opt_index_type = BTREE, opt_mmap_at_startup = False\<rparr>"

definition c1_put_b :: LogRecord where
  "c1_put_b = \<lparr>rec_key = [0x62], rec_value = [0x32], rec_type = NORMAL\<rparr>"

definition c1_seq_no :: LogRecord where
  "c1_seq_no = \<lparr>rec_key = encode_str ''seq_no'', rec_value = encode_str ''1'', rec_type = NORMAL\<rparr>"

definition c1_db0 :: DB where
  "c1_db0 = \<lparr>db_options = c1_options,
             db_dir = [(''flock'', []), (''000000001.data'', [])],
             db_active_file = Some \<lparr>df_file_id = 1, df_write_offset = 0\<rparr>,
             db_older_files = Map.empty, db_index = Map.empty,
             db_file_ids = [1], db_is_closed = False, db_seq_no = Some 0,
             db_bytes_write = 0, db_reclaim_size = 0\<rparr>"

definition c1_batch :: Batch where
  "c1_batch = \<lparr>b_is_committed = False,
               b_writes = [([0x61], Some [0x31]), ([0x62], Some [0x32])]\<rparr>"

definition c1_segment1 :: bytes where
  "c1_segment1 = encoded (txn_marker 1 TXNSTART) @ encoded c7_put"

definition c1_segment2 :: bytes where
  "c1_segment2 = encoded c1_put_b @ encoded (txn_marker 1 TXNFINISHED)"

definition c1_db1 :: DB where
  "c1_db1 = \<lparr>db_options = c1_options,
             db_dir = [(''flock'', []), (''000000001.data'', c1_segment1),
                       (''000000002.data'', c1_segment2)],
             db_active_file = Some \<lparr>df_file_id = 2, df_write_offset = 29\<rparr>,
             db_older_files = [1 \<mapsto> \<lparr>df_file_id = 1, df_write_offset = 29\<rparr>],
             db_index = [[0x61] \<mapsto> \<lparr>pos_file_id = 1, pos_offset = 14, pos_size = 15\<rparr>,
                         [0x62] \<mapsto> \<lparr>pos_file_id = 2, pos_offset = 0, pos_size = 15\<rparr>],
             db_file_ids = [1, 2], db_is_closed = False, db_seq_no = Some 1,
             db_bytes_write = 0, db_reclaim_size = 0\<rparr>"

definition c1_db2 :: DB where
  "c1_db2 = \<lparr>db_options = c1_options,
             db_dir = [(''000000001.data'', c1_segment1), (''000000002.data'', c1_segment2),
                       (''seq_no.data'', encoded c1_seq_no), (''flock'', [])],
             db_active_file = Some \<lparr>df_file_id = 2, df_write_offset = 29\<rparr>,
             db_older_files = [1 \<mapsto> \<lparr>df_file_id = 1, df_write_offset = 29\<rparr>],
             db_index = [[0x62] \<mapsto> \<lparr>pos_file_id = 2, pos_offset = 0, pos_size = 15\<rparr>],
             db_file_ids = [1, 2], db_is_closed = False, db_seq_no = Some 1,
             db_bytes_write = 2, db_reclaim_size = 0\<rparr>"

definition c1_crashed :: directory where
  "c1_crashed = [(''flock'', []), (''000000001.data'', c1_segment1),
                 (''000000002.data'', take 15 c1_segment2)]"

definition c1_db3 :: DB where
  "c1_db3 = \<lparr>db_options = c1_options, db_dir = c1_crashed,
             db_active_file = Some \<lparr>df_file_id = 2, df_write_offset = 15\<rparr>,
             db_older_files = [1 \<mapsto> \<lparr>df_file_id = 1, df_write_offset = 29\<rparr>],
             db_index = [[0x62] \<mapsto> \<lparr>pos_file_id = 2, pos_offset = 0, pos_size = 15\<rparr>],
             db_file_ids = [1, 2], db_is_closed = False, db_seq_no = Some 0,
             db_bytes_write = 2, db_reclaim_size = 0\<rparr>"

section \<open>Facts about the library model\<close>

lemma le_bytes_numeral [simp]:
  "le_bytes (numeral k) v = word_of_int v # le_bytes (pred_numeral k) (v div 256)"
  by (simp add: numeral_eq_Suc)

lemma length_le_bytes [simp]: "length (le_bytes n v) = n"
  by (induction n arbitrary: v) auto

lemma length_uint_bytes [simp]: "length (uint_bytes e n v) = n"
  by (cases e) (simp_all add: uint_bytes_def)

lemma le_int_le_bytes: "0 \<le> v \<Longrightarrow> v < 256 ^ n \<Longrightarrow> le_int (le_bytes n v) = v"
proof (induction n arbitrary: v)
  case 0
  then show ?case by simp
next
  case (Suc n)
  have "v div 256 < 256 ^ n"
    using Suc.prems by (simp add: div_less_iff_less_mult mult.commute)
  moreover have "0 \<le> v div 256"
    using Suc.prems by simp
  ultimately have "le_int (le_bytes n (v div 256)) = v div 256"
    using Suc.IH by blast
  moreover have "uint (word_of_int v :: byte) = v mod 256"
    by (simp add: uint_word_of_int)
  ultimately show ?case by simp
qed

lemma unpack_uint_bytes:
  "0 \<le> v \<Longrightarrow> v < 256 ^ n \<Longrightarrow> unpack_uint e (uint_bytes e n v) = v"
  by (cases e) (simp_all add: unpack_uint_def uint_bytes_def le_int_le_bytes)

lemma xor_u32:
  fixes x y :: int
  assumes "0 \<le> x" "x < 2 ^ 32" "0 \<le> y" "y < 2 ^ 32"
  shows "0 \<le> x XOR y \<and> x XOR y < 2 ^ 32"
proof
  show "0 \<le> x XOR y"
    using assms(1) assms(3) by simp
  show "x XOR y < 2 ^ 32"
    using assms(1) assms(2) assms(4) by (rule XOR_upper)
qed

lemma crc32_bit_range:
  assumes "0 \<le> c" "c < 2 ^ 32"
  shows "0 \<le> crc32_bit c \<and> crc32_bit c < 2 ^ 32"
proof -
  have h: "0 \<le> c div 2" "c div 2 < 2 ^ 32"
    using assms by simp_all
  have "0 \<le> c div 2 XOR 0xEDB88320 \<and> c div 2 XOR 0xEDB88320 < 2 ^ 32"
    using h by (intro xor_u32) simp_all
  then show ?thesis
    using h by (simp only: crc32_bit_def split: if_split) blast
qed

lemma crc32_bits_range:
  assumes "0 \<le> c" "c < 2 ^ 32"
  shows "0 \<le> (crc32_bit ^^ k) c \<and> (crc32_bit ^^ k) c < 2 ^ 32"
proof (induction k)
  case 0
  then show ?case using assms by simp
next
  case (Suc k)
  then show ?case
    using crc32_bit_range [of "(crc32_bit ^^ k) c"] by (simp del: power_numeral)
qed

lemma crc32_byte_range:
  assumes "0 \<le> c" "c < 2 ^ 32"
  shows "0 \<le> crc32_byte c b \<and> crc32_byte c b < 2 ^ 32"
proof -
  have "uint b < 2 ^ 8"
    using uint_lt2p [of b] by simp
  then have "uint b < 2 ^ 32"
    by (rule order_less_trans) simp
  then have "0 \<le> c XOR uint b \<and> c XOR uint b < 2 ^ 32"
    using assms by (intro xor_u32) simp_all
  then show ?thesis
    unfolding crc32_byte_def using crc32_bits_range by blast
qed

lemma foldl_crc32_range:
  "0 \<le> c \<Longrightarrow> c < 2 ^ 32 \<Longrightarrow>
   0 \<le> foldl crc32_byte c bs \<and> foldl crc32_byte c bs < 2 ^ 32"
proof (induction bs arbitrary: c)
  case Nil
  then show ?case by simp
next
  case (Cons b bs)
  have "0 \<le> crc32_byte c b \<and> crc32_byte c b < 2 ^ 32"
    using Cons.prems by (rule crc32_byte_range)
  then show ?case
    using Cons.IH [of "crc32_byte c b"] by (simp del: power_numeral)
qed

lemma zlib_crc32_range: "0 \<le> zlib_crc32 bs \<and> zlib_crc32 bs < 2 ^ 32"
proof -
  have "0 \<le> foldl crc32_byte 0xFFFFFFFF bs \<and> foldl crc32_byte 0xFFFFFFFF bs < 2 ^ 32"
    by (rule foldl_crc32_range) simp_all
  then show ?thesis
    unfolding zlib_crc32_def by (intro xor_u32) simp_all
qed

section \<open>Facts about the record codec\<close>

lemma pack_uint_ok: "0 \<le> v \<Longrightarrow> v < 256 ^ n \<Longrightarrow> pack_uint e n v = Inr (uint_bytes e n v)"
  by (simp add: pack_uint_def)

lemma splice_segment:
  "length a = i \<Longrightarrow> length b = j - i \<Longrightarrow> i \<le> j \<Longrightarrow>
   take i (a @ b @ c) @ new @ drop j (a @ b @ c) = a @ new @ c"
  by simp

lemma LogRecord_encode_eq:
  assumes K: "length (rec_key r) < 2 ^ 32" and V: "length (rec_value r) < 2 ^ 32"
  shows "LogRecord_encode r =
           Inr (uint_bytes Big 4 (zlib_crc32 (record_body r)) @ record_body r,
                13 + length (rec_key r) + length (rec_value r))"
proof -
  define k where "k = rec_key r"
  define v where "v = rec_value r"
  define t :: byte where "t = of_nat (type_value (rec_type r))"
  define kb where "kb = uint_bytes Big 4 (int (length k))"
  define vb where "vb = uint_bytes Big 4 (int (length v))"
  have lkb [simp]: "length kb = 4" and lvb [simp]: "length vb = 4"
    by (simp_all add: kb_def vb_def)
  have pk: "pack_uint Big 4 (int (length k)) = Inr kb"
    using K by (simp add: pack_uint_def kb_def k_def)
  have pv: "pack_uint Big 4 (int (length v)) = Inr vb"
    using V by (simp add: pack_uint_def vb_def v_def)
  define z :: "nat \<Rightarrow> bytes" where "z n = replicate n 0" for n
  have lz [simp]: "length (z n) = n" for n by (simp add: z_def)
  have e0: "replicate (13 + length k + length v) (0::byte)
              = z 4 @ [0] @ z 4 @ z 4 @ z (length k) @ z (length v)"
  proof -
    have "13 + length k + length v = 4 + (1 + (4 + (4 + (length k + length v))))"
      by simp
    then have "replicate (13 + length k + length v) (0::byte)
                 = replicate (4 + (1 + (4 + (4 + (length k + length v))))) 0"
      by (rule arg_cong)
    also have "\<dots> = z 4 @ replicate 1 0 @ z 4 @ z 4 @ z (length k) @ z (length v)"
      by (simp only: z_def replicate_add)
    finally show ?thesis by simp
  qed
  have e1: "(z 4 @ [0] @ z 4 @ z 4 @ z (length k) @ z (length v))[4 := t]
              = z 4 @ [t] @ z 4 @ z 4 @ z (length k) @ z (length v)"
    by (simp add: list_update_append)
  have e2: "pack_into Big 4 (z 4 @ [t] @ z 4 @ z 4 @ z (length k) @ z (length v)) 5 (int (length k))
              = Inr (z 4 @ [t] @ kb @ z 4 @ z (length k) @ z (length v))"
    by (simp add: pack_into_def pk)
  have e3: "pack_into Big 4 (z 4 @ [t] @ kb @ z 4 @ z (length k) @ z (length v)) 9 (int (length v))
              = Inr (z 4 @ [t] @ kb @ vb @ z (length k) @ z (length v))"
    by (simp add: pack_into_def pv)
  have e4: "slice_assign (z 4 @ [t] @ kb @ vb @ z (length k) @ z (length v)) 13 (13 + length k) k
              = z 4 @ [t] @ kb @ vb @ k @ z (length v)"
    using splice_segment [of "z 4 @ [t] @ kb @ vb" 13 "z (length k)" "13 + length k" "z (length v)" k]
    by (simp add: slice_assign_def)
  have e5: "slice_assign (z 4 @ [t] @ kb @ vb @ k @ z (length v)) (13 + length k)
               (13 + length k + length v) v
              = z 4 @ [t] @ kb @ vb @ k @ v"
    using splice_segment [of "z 4 @ [t] @ kb @ vb @ k" "13 + length k" "z (length v)"
                             "13 + length k + length v" "[]" v]
    by (simp add: slice_assign_def)
  have body: "record_body r = [t] @ kb @ vb @ k @ v"
    by (simp add: record_body_def t_def kb_def vb_def k_def v_def)
  have pc: "pack_uint Big 4 (zlib_crc32 (record_body r))
              = Inr (uint_bytes Big 4 (zlib_crc32 (record_body r)))"
    using zlib_crc32_range [of "record_body r"] by (simp add: pack_uint_def)
  have e6: "pack_into Big 4 (z 4 @ [t] @ kb @ vb @ k @ v) 0 (zlib_crc32 (record_body r))
              = Inr (uint_bytes Big 4 (zlib_crc32 (record_body r)) @ record_body r)"
    using pc by (simp add: pack_into_def body)
  have d5: "drop 4 (z 4 @ [t] @ kb @ vb @ k @ v) = record_body r"
    by (simp add: body)
  show ?thesis
    apply (simp only: LogRecord_encode_def Let_def HEADER_SIZE_def
             k_def [symmetric] v_def [symmetric] t_def [symmetric])
    apply (simp only: e0 e1 e2 e3 e4 e5 d5 e6 sum.case)
    done
qed

lemma slice_segment:
  "length a = i \<Longrightarrow> length b = j - i \<Longrightarrow> i \<le> j \<Longrightarrow> slice (a @ b @ c) i j = b"
  by (simp add: slice_def)

lemma unat_type_value [simp]: "unat (of_nat (type_value t) :: byte) = type_value t"
  by (cases t) simp_all

lemma LogRecordType_of_value [simp]: "LogRecordType_of (type_value t) = Some t"
  by (cases t) (simp_all add: LogRecordType_of_def)

lemma length_record_body:
  "length (record_body r) = 9 + length (rec_key r) + length (rec_value r)"
  by (simp add: record_body_def)

lemma LogRecord_decode_encoded:
  assumes K: "length (rec_key r) < 2 ^ 32" and V: "length (rec_value r) < 2 ^ 32"
  shows "LogRecord_decode (uint_bytes Big 4 (zlib_crc32 (record_body r)) @ record_body r) = Some r"
proof -
  define k where "k = rec_key r"
  define v where "v = rec_value r"
  define t :: byte where "t = of_nat (type_value (rec_type r))"
  define kb where "kb = uint_bytes Big 4 (int (length k))"
  define vb where "vb = uint_bytes Big 4 (int (length v))"
  define cb where "cb = uint_bytes Big 4 (zlib_crc32 (record_body r))"
  define data where "data = cb @ record_body r"
  have l [simp]: "length kb = 4" "length vb = 4" "length cb = 4"
    by (simp_all add: kb_def vb_def cb_def)
  have body: "record_body r = [t] @ kb @ vb @ k @ v"
    by (simp add: record_body_def t_def kb_def vb_def k_def v_def)
  have d: "data = cb @ [t] @ kb @ vb @ k @ v"
    by (simp add: data_def body)
  have s0: "slice data 0 4 = cb"
    using slice_segment [of "[]" 0 cb 4 "[t] @ kb @ vb @ k @ v"] by (simp add: d)
  have s4: "data ! 4 = t"
    by (simp add: d nth_append)
  have s5: "slice data 5 9 = kb"
    using slice_segment [of "cb @ [t]" 5 kb 9 "vb @ k @ v"] by (simp add: d)
  have s9: "slice data 9 13 = vb"
    using slice_segment [of "cb @ [t] @ kb" 9 vb 13 "k @ v"] by (simp add: d)
  have sk: "slice data 13 (13 + length k) = k"
    using slice_segment [of "cb @ [t] @ kb @ vb" 13 k "13 + length k" v] by (simp add: d)
  have sv: "slice data (13 + length k) (13 + length k + length v) = v"
    using slice_segment [of "cb @ [t] @ kb @ vb @ k" "13 + length k" v "13 + length k + length v" "[]"]
    by (simp add: d)
  have d4: "drop 4 data = record_body r"
    by (simp add: data_def)
  have uc: "unpack_uint Big cb = zlib_crc32 (record_body r)"
    unfolding cb_def using zlib_crc32_range [of "record_body r"]
    by (intro unpack_uint_bytes) simp_all
  have uk: "unpack_uint Big kb = int (length k)"
    unfolding kb_def using K by (intro unpack_uint_bytes) (simp_all add: k_def)
  have uv: "unpack_uint Big vb = int (length v)"
    unfolding vb_def using V by (intro unpack_uint_bytes) (simp_all add: v_def)
  have len: "\<not> length data < HEADER_SIZE"
    by (simp add: d HEADER_SIZE_def)
  have v0: "length v = 0 \<Longrightarrow> v = []"
    by simp
  have "LogRecord_decode data = Some r"
    unfolding LogRecord_decode_def Let_def
    using len v0
    by (simp add: s0 s4 s5 s9 d4 uc uk uv HEADER_SIZE_def sk [unfolded k_def]
          sv [unfolded k_def v_def] t_def k_def v_def)
  then show ?thesis
    by (simp add: data_def cb_def)
qed

lemma drop_prefix: "length a = n \<Longrightarrow> drop n (a @ c) = c"
  by simp

section \<open>Claim C5: the record codec\<close>

text \<open>
  C5 (as amended).  For every record type, every key and every value, each shorter than
  \<open>2^32\<close> bytes, \<open>LogRecord.encode\<close> returns a buffer of \<open>13 + len(key) + len(value)\<close>
  bytes, and that number as the size; the first four bytes are the big-endian CRC-32 of
  the bytes from offset 4 to the end; then come the type byte, the big-endian u32 key
  length, the big-endian u32 value length, the key and the value; and
  \<open>LogRecord.decode\<close> of the buffer gives back the record.
\<close>

theorem LogRecord_codec_roundtrip:
  assumes "length (rec_key r) < 2 ^ 32" and "length (rec_value r) < 2 ^ 32"
  shows "\<exists>buf. LogRecord_encode r
                  = Inr (buf, 13 + length (rec_key r) + length (rec_value r))
             \<and> length buf = 13 + length (rec_key r) + length (rec_value r)
             \<and> slice buf 0 4 = uint_bytes Big 4 (zlib_crc32 (drop 4 buf))
             \<and> buf ! 4 = of_nat (type_value (rec_type r))
             \<and> slice buf 5 9 = uint_bytes Big 4 (int (length (rec_key r)))
             \<and> slice buf 9 13 = uint_bytes Big 4 (int (length (rec_value r)))
             \<and> slice buf 13 (13 + length (rec_key r)) = rec_key r
             \<and> drop (13 + length (rec_key r)) buf = rec_value r
             \<and> LogRecord_decode buf = Some r"
proof -
  define cb where "cb = uint_bytes Big 4 (zlib_crc32 (record_body r))"
  define t :: byte where "t = of_nat (type_value (rec_type r))"
  define kb where "kb = uint_bytes Big 4 (int (length (rec_key r)))"
  define vb where "vb = uint_bytes Big 4 (int (length (rec_value r)))"
  define buf where "buf = cb @ record_body r"
  have l [simp]: "length cb = 4" "length kb = 4" "length vb = 4"
    by (simp_all add: cb_def kb_def vb_def)
  have b: "buf = cb @ [t] @ kb @ vb @ rec_key r @ rec_value r"
    by (simp add: buf_def record_body_def t_def kb_def vb_def)
  have enc: "LogRecord_encode r = Inr (buf, 13 + length (rec_key r) + length (rec_value r))"
    unfolding buf_def cb_def using assms by (rule LogRecord_encode_eq)
  have dec: "LogRecord_decode buf = Some r"
    unfolding buf_def cb_def using assms by (rule LogRecord_decode_encoded)
  have len: "length buf = 13 + length (rec_key r) + length (rec_value r)"
    by (simp add: b)
  have crc: "slice buf 0 4 = uint_bytes Big 4 (zlib_crc32 (drop 4 buf))"
    using slice_segment [of "[]" 0 cb 4 "record_body r"] by (simp add: buf_def cb_def)
  have ty: "buf ! 4 = t"
    by (simp add: b nth_append)
  have ks: "slice buf 5 9 = kb"
    using slice_segment [of "cb @ [t]" 5 kb 9 "vb @ rec_key r @ rec_value r"] by (simp add: b)
  have vs: "slice buf 9 13 = vb"
    using slice_segment [of "cb @ [t] @ kb" 9 vb 13 "rec_key r @ rec_value r"] by (simp add: b)
  have k: "slice buf 13 (13 + length (rec_key r)) = rec_key r"
    using slice_segment [of "cb @ [t] @ kb @ vb" 13 "rec_key r" "13 + length (rec_key r)"
                            "rec_value r"]
    by (simp add: b)
  have v: "drop (13 + length (rec_key r)) buf = rec_value r"
    using drop_prefix [of "cb @ [t] @ kb @ vb @ rec_key r" "13 + length (rec_key r)"
                          "rec_value r"]
    by (simp add: b)
  show ?thesis
    using enc len crc ty ks vs k v dec unfolding t_def kb_def vb_def by blast
qed

theorem LogRecord_codec_roundtrip_witness:
  "\<exists>buf. LogRecord_encode \<lparr>rec_key = [0x61], rec_value = [0x31, 0x32], rec_type = NORMAL\<rparr>
            = Inr (buf, 16)
        \<and> length buf = 16
        \<and> buf ! 4 = 1
        \<and> slice buf 13 14 = [0x61]
        \<and> drop 14 buf = [0x31, 0x32]
        \<and> LogRecord_decode buf
            = Some \<lparr>rec_key = [0x61], rec_value = [0x31, 0x32], rec_type = NORMAL\<rparr>"
proof -
  let ?r = "\<lparr>rec_key = [0x61], rec_value = [0x31, 0x32], rec_type = NORMAL\<rparr>"
  have "length (rec_key ?r) < 2 ^ 32" and "length (rec_value ?r) < 2 ^ 32"
    by simp_all
  from LogRecord_codec_roundtrip [OF this]
  obtain buf where
    "LogRecord_encode ?r = Inr (buf, 13 + length (rec_key ?r) + length (rec_value ?r))"
    "length buf = 13 + length (rec_key ?r) + length (rec_value ?r)"
    "buf ! 4 = of_nat (type_value (rec_type ?r))"
    "slice buf 13 (13 + length (rec_key ?r)) = rec_key ?r"
    "drop (13 + length (rec_key ?r)) buf = rec_value ?r"
    "LogRecord_decode buf = Some ?r"
    by blast
  then have "LogRecord_encode ?r = Inr (buf, 16) \<and> length buf = 16 \<and> buf ! 4 = 1
      \<and> slice buf 13 14 = [0x61] \<and> drop 14 buf = [0x31, 0x32]
      \<and> LogRecord_decode buf = Some ?r"
    by simp
  then show ?thesis by blast
qed

text \<open>
  As stated, for every key, C5 fails: a key of \<open>2^32\<close> bytes does not fit the u32 length
  field, \<open>struct.pack_into(">I", ...)\<close> raises, and \<open>encode\<close> returns no buffer.
\<close>

theorem LogRecord_encode_counterexample:
  "LogRecord_encode \<lparr>rec_key = replicate (2 ^ 32) 0, rec_value = [], rec_type = NORMAL\<rparr>
     = Inl StructError"
  by (simp add: LogRecord_encode_def pack_into_def pack_uint_def Let_def)

section \<open>Claim C6: the position codec\<close>

lemma LogRecordPos_encode_eq:
  assumes "0 \<le> pos_file_id p" "pos_file_id p < 2 ^ 32"
      and "0 \<le> pos_offset p" "pos_offset p < 2 ^ 64"
      and "0 \<le> pos_size p" "pos_size p < 2 ^ 32"
  shows "LogRecordPos_encode native p
           = Inr (uint_bytes native 4 (pos_file_id p) @ uint_bytes native 8 (pos_offset p)
                    @ uint_bytes native 4 (pos_size p))"
  using assms by (simp add: LogRecordPos_encode_def pack_uint_def)

text \<open>
  C6 (as amended).  For every record position with \<open>0 \<le> file_id < 2^32\<close>,
  \<open>0 \<le> offset < 2^64\<close> and \<open>0 \<le> size < 2^32\<close>, \<open>LogRecordPos.encode\<close> produces
  exactly 16 bytes, \<open>u32 file_id || u64 offset || u32 size\<close>, each field in the byte
  order of the host (the format is \<open>"=IQI"\<close>), so little-endian on a little-endian host;
  and \<open>LogRecordPos.decode\<close> of those bytes on the same host returns an equal position.
\<close>

theorem LogRecordPos_codec_roundtrip:
  assumes "0 \<le> pos_file_id p" "pos_file_id p < 2 ^ 32"
      and "0 \<le> pos_offset p" "pos_offset p < 2 ^ 64"
      and "0 \<le> pos_size p" "pos_size p < 2 ^ 32"
  shows "\<exists>buf. LogRecordPos_encode native p = Inr buf
             \<and> length buf = 16
             \<and> slice buf 0 4 = uint_bytes native 4 (pos_file_id p)
             \<and> slice buf 4 12 = uint_bytes native 8 (pos_offset p)
             \<and> slice buf 12 16 = uint_bytes native 4 (pos_size p)
             \<and> LogRecordPos_decode native buf = Inr p"
proof -
  define a where "a = uint_bytes native 4 (pos_file_id p)"
  define b where "b = uint_bytes native 8 (pos_offset p)"
  define c where "c = uint_bytes native 4 (pos_size p)"
  define buf where "buf = a @ b @ c"
  have l [simp]: "length a = 4" "length b = 8" "length c = 4"
    by (simp_all add: a_def b_def c_def)
  have enc: "LogRecordPos_encode native p = Inr buf"
    unfolding buf_def a_def b_def c_def using assms by (rule LogRecordPos_encode_eq)
  have len: "length buf = 16"
    by (simp add: buf_def)
  have sa: "slice buf 0 4 = a"
    using slice_segment [of "[]" 0 a 4 "b @ c"] by (simp add: buf_def)
  have sb: "slice buf 4 12 = b"
    using slice_segment [of a 4 b 12 c] by (simp add: buf_def)
  have sc: "slice buf 12 16 = c"
    using slice_segment [of "a @ b" 12 c 16 "[]"] by (simp add: buf_def)
  have ua: "unpack_uint native a = pos_file_id p"
    unfolding a_def using assms by (intro unpack_uint_bytes) simp_all
  have ub: "unpack_uint native b = pos_offset p"
    unfolding b_def using assms by (intro unpack_uint_bytes) simp_all
  have uc: "unpack_uint native c = pos_size p"
    unfolding c_def using assms by (intro unpack_uint_bytes) simp_all
  have dec: "LogRecordPos_decode native buf = Inr p"
    by (simp add: LogRecordPos_decode_def unpack_IQI_def len sa sb sc ua ub uc)
  show ?thesis
    using enc len sa sb sc dec unfolding a_def b_def c_def by blast
qed

theorem LogRecordPos_codec_roundtrip_witness:
  "\<exists>buf. LogRecordPos_encode Little \<lparr>pos_file_id = 1, pos_offset = 258, pos_size = 15\<rparr> = Inr buf
        \<and> buf = [1, 0, 0, 0, 2, 1, 0, 0, 0, 0, 0, 0, 15, 0, 0, 0]
        \<and> LogRecordPos_decode Little buf
            = Inr \<lparr>pos_file_id = 1, pos_offset = 258, pos_size = 15\<rparr>"
proof -
  let ?p = "\<lparr>pos_file_id = 1, pos_offset = 258, pos_size = 15\<rparr>"
  have "0 \<le> pos_file_id ?p" "pos_file_id ?p < 2 ^ 32" "0 \<le> pos_offset ?p"
    "pos_offset ?p < 2 ^ 64" "0 \<le> pos_size ?p" "pos_size ?p < 2 ^ 32"
    by simp_all
  from LogRecordPos_codec_roundtrip [OF this, of Little]
  obtain buf where e: "LogRecordPos_encode Little ?p = Inr buf"
    and d: "LogRecordPos_decode Little buf = Inr ?p"
    by blast
  have "LogRecordPos_encode Little ?p = Inr [1, 0, 0, 0, 2, 1, 0, 0, 0, 0, 0, 0, 15, 0, 0, 0]"
    by (simp add: LogRecordPos_encode_def pack_uint_def uint_bytes_def)
  with e have "buf = [1, 0, 0, 0, 2, 1, 0, 0, 0, 0, 0, 0, 15, 0, 0, 0]"
    by simp
  with e d show ?thesis by blast
qed

text \<open>
  As stated (always little-endian), C6 fails on a big-endian host: there the position
  \<open>(1, 0, 0)\<close> is encoded with the most significant byte of each field first.
\<close>

theorem LogRecordPos_encode_counterexample:
  "LogRecordPos_encode Big \<lparr>pos_file_id = 1, pos_offset = 0, pos_size = 0\<rparr>
     = Inr [0, 0, 0, 1, 0, 0, 0, 0, 0, 0, 0, 0, 0, 0, 0, 0]
   \<and> LogRecordPos_encode Big \<lparr>pos_file_id = 1, pos_offset = 0, pos_size = 0\<rparr>
     \<noteq> Inr (uint_bytes Little 4 1 @ uint_bytes Little 8 0 @ uint_bytes Little 4 0)"
  by (simp add: LogRecordPos_encode_def pack_uint_def uint_bytes_def)

section \<open>Facts about segment files\<close>

lemma FileIO_read_full:
  "offset + n \<le> length f \<Longrightarrow>
   FileIO_read f (replicate n 0) offset = (n, take n (drop offset f))"
  by (simp add: FileIO_read_def Let_def)

lemma length_encoded [simp]:
  "length (encoded r) = 13 + length (rec_key r) + length (rec_value r)"
  by (simp add: encoded_def record_body_def)

lemma LogRecord_encode_encoded:
  "length (rec_key r) < 2 ^ 32 \<Longrightarrow> length (rec_value r) < 2 ^ 32 \<Longrightarrow>
   LogRecord_encode r = Inr (encoded r, 13 + length (rec_key r) + length (rec_value r))"
  unfolding encoded_def by (rule LogRecord_encode_eq)

lemma read_log_record_encoded:
  assumes K: "length (rec_key r) < 2 ^ 32" and V: "length (rec_value r) < 2 ^ 32"
  shows "read_log_record (pre @ encoded r @ post) (int (length pre)) =
           (if rec_type r \<notin> {NORMAL, DELETED, TXNFINISHED} then None
            else if rec_key r = []
                    \<or> int (length (rec_key r)) + int (length (rec_value r)) > SANITY_CAP
            then None
            else Some (r, 13 + int (length (rec_key r)) + int (length (rec_value r))))"
proof -
  define k where "k = rec_key r"
  define v where "v = rec_value r"
  define t :: byte where "t = of_nat (type_value (rec_type r))"
  define kb where "kb = uint_bytes Big 4 (int (length k))"
  define vb where "vb = uint_bytes Big 4 (int (length v))"
  define cb where "cb = uint_bytes Big 4 (zlib_crc32 (record_body r))"
  define hdr where "hdr = cb @ [t] @ kb @ vb"
  define fl where "fl = pre @ encoded r @ post"
  have l [simp]: "length kb = 4" "length vb = 4" "length cb = 4"
    by (simp_all add: kb_def vb_def cb_def)
  have body: "record_body r = [t] @ kb @ vb @ k @ v"
    by (simp add: record_body_def t_def kb_def vb_def k_def v_def)
  have d: "encoded r = cb @ [t] @ kb @ vb @ k @ v"
    by (simp add: encoded_def cb_def body)
  have fl: "fl = pre @ hdr @ (k @ v) @ post"
    by (simp add: fl_def d hdr_def)
  have sz: "\<not> int (length pre) \<ge> int (FileIO_size fl)"
    "\<not> int (length pre) + int HEADER_SIZE > int (FileIO_size fl)"
    "\<not> int (length pre) < 0"
    by (simp_all add: fl hdr_def FileIO_size_def HEADER_SIZE_def)
  have r1: "FileIO_read fl (replicate HEADER_SIZE 0) (nat (int (length pre))) = (HEADER_SIZE, hdr)"
    by (simp add: FileIO_read_def Let_def fl hdr_def HEADER_SIZE_def)
  have s0: "slice hdr 0 4 = cb"
    using slice_segment [of "[]" 0 cb 4 "[t] @ kb @ vb"] by (simp add: hdr_def)
  have s4: "hdr ! 4 = t"
    by (simp add: hdr_def nth_append)
  have s5: "slice hdr 5 9 = kb"
    using slice_segment [of "cb @ [t]" 5 kb 9 "vb"] by (simp add: hdr_def)
  have s9: "slice hdr 9 13 = vb"
    using slice_segment [of "cb @ [t] @ kb" 9 vb 13 "[]"] by (simp add: hdr_def)
  have uc: "unpack_uint Big cb = zlib_crc32 (record_body r)"
    unfolding cb_def using zlib_crc32_range [of "record_body r"]
    by (intro unpack_uint_bytes) simp_all
  have uk: "unpack_uint Big kb = int (length k)"
    unfolding kb_def using K by (intro unpack_uint_bytes) (simp_all add: k_def)
  have uv: "unpack_uint Big vb = int (length v)"
    unfolding vb_def using V by (intro unpack_uint_bytes) (simp_all add: v_def)
  have ut: "unat t = type_value (rec_type r)"
    by (simp add: t_def)
  have tot: "nat (int HEADER_SIZE + int (length k) + int (length v)) = length (encoded r)"
    by (simp add: HEADER_SIZE_def k_def v_def)
  have r2: "FileIO_read fl (replicate (length (encoded r)) 0) (nat (int (length pre)))
              = (length (encoded r), encoded r)"
    by (simp add: FileIO_read_def Let_def fl_def)
  have fits: "\<not> int (length pre) + (int HEADER_SIZE + int (length k) + int (length v))
                > int (FileIO_size fl)"
    by (simp add: fl hdr_def FileIO_size_def HEADER_SIZE_def)
  have d4: "drop 4 (encoded r) = record_body r"
    by (simp add: encoded_def)
  have sk: "slice (encoded r) HEADER_SIZE (HEADER_SIZE + nat (int (length k))) = k"
    using slice_segment [of "cb @ [t] @ kb @ vb" 13 k "13 + length k" v]
    by (simp add: d HEADER_SIZE_def)
  have sv: "drop (HEADER_SIZE + nat (int (length k))) (encoded r) = v"
    using drop_prefix [of "cb @ [t] @ kb @ vb @ k" "13 + length k" v]
    by (simp add: d HEADER_SIZE_def)
  have v0: "\<not> 0 < int (length v) \<Longrightarrow> v = []"
    by simp
  have ty: "type_value (rec_type r) \<in> set [type_value NORMAL, type_value DELETED,
                                           type_value TXNFINISHED]
              \<longleftrightarrow> rec_type r \<in> {NORMAL, DELETED, TXNFINISHED}"
    by (cases "rec_type r") simp_all
  have k0: "int (length k) \<le> 0 \<longleftrightarrow> k = []"
    by simp
  have rr: "\<lparr>rec_key = k, rec_value = v, rec_type = rec_type r\<rparr> = r"
    by (simp add: k_def v_def)
  have "read_log_record fl (int (length pre)) =
           (if rec_type r \<notin> {NORMAL, DELETED, TXNFINISHED} then None
            else if k = [] \<or> int (length k) + int (length v) > SANITY_CAP then None
            else Some (r, 13 + int (length k) + int (length v)))"
    unfolding read_log_record_def Let_def
    apply (simp only: sz if_False r1 prod.case s0 s4 s5 s9 uc uk uv ut ty k0 tot r2 fits
                      d4 sk sv refl if_True simp_thms of_nat_less_0_iff)
    using v0 rr by (auto simp: HEADER_SIZE_def LogRecordType_of_def)
  then show ?thesis
    by (simp add: fl_def k_def v_def)
qed

section \<open>Claim C3: which records \<open>read_log_record\<close> reads back\<close>

text \<open>
  What the code does, for every record whose key and value are shorter than \<open>2^32\<close>
  bytes, appended at any offset of a segment: \<open>read_log_record\<close> at that offset returns
  the record and its size exactly when its type is \<open>NORMAL\<close>, \<open>DELETED\<close> or
  \<open>TXNFINISHED\<close>, its key is not empty and key and value together are at most 100 MiB;
  otherwise it returns \<open>None\<close>.  This is lemma \<open>read_log_record_encoded\<close>.
\<close>

text \<open>
  C3.  The claim says that a record of any of the five types with a non-empty key, at
  most 100 MiB and a matching CRC is read back by \<open>read_log_record\<close> at the offset where
  it was appended.  The code refuses the types \<open>TXNSTART\<close> and \<open>TXNABORT\<close>: the
  \<open>TXNSTART\<close> marker that \<open>Batch.commit\<close> writes for transaction 1 is encoded in 14
  bytes, \<open>LogRecord.decode\<close> reads it back, and \<open>read_log_record\<close> at offset 0 of a
  segment holding just that record returns \<open>None\<close>.
\<close>

theorem read_log_record_rejects_TXNSTART:
  "LogRecord_encode \<lparr>rec_key = encode_str ''1'', rec_value = [], rec_type = TXNSTART\<rparr>
     = Inr (encoded \<lparr>rec_key = encode_str ''1'', rec_value = [], rec_type = TXNSTART\<rparr>, 14)
   \<and> LogRecord_decode (encoded \<lparr>rec_key = encode_str ''1'', rec_value = [], rec_type = TXNSTART\<rparr>)
     = Some \<lparr>rec_key = encode_str ''1'', rec_value = [], rec_type = TXNSTART\<rparr>
   \<and> read_log_record (encoded \<lparr>rec_key = encode_str ''1'', rec_value = [], rec_type = TXNSTART\<rparr>) 0
     = None"
proof -
  let ?r = "\<lparr>rec_key = encode_str ''1'', rec_value = [], rec_type = TXNSTART\<rparr>"
  have K: "length (rec_key ?r) < 2 ^ 32" and V: "length (rec_value ?r) < 2 ^ 32"
    by (simp_all add: encode_str_def)
  have e: "LogRecord_encode ?r = Inr (encoded ?r, 14)"
    using LogRecord_encode_encoded [OF K V] by (simp add: encode_str_def)
  have d: "LogRecord_decode (encoded ?r) = Some ?r"
    unfolding encoded_def using K V by (rule LogRecord_decode_encoded)
  have "read_log_record ([] @ encoded ?r @ []) (int (length ([] :: bytes))) = None"
    by (subst read_log_record_encoded [OF K V]) simp
  then have r: "read_log_record (encoded ?r) 0 = None"
    by simp
  show ?thesis
    using e d r by blast
qed

section \<open>Claim C9: the two I/O backends\<close>

text \<open>
  C9.  The claim says both backends return identical results for every sequence of
  operations, the empty file included.  On an empty file a write of zero bytes returns 0
  with the buffered backend; with the memory-mapped backend nothing is grown, no mapping
  exists, and the seek on it raises \<open>AttributeError\<close>, on either platform.
\<close>

theorem MMapIO_write_empty_on_empty_file:
  "FileIO_write [] [] = (0, [])
   \<and> MMapIO_write Windows (MMapIO_init []) [] = (Inl AttributeError, MMapIO_init [])
   \<and> MMapIO_write Posix (MMapIO_init []) [] = (Inl AttributeError, MMapIO_init [])"
  by (simp add: FileIO_write_def MMapIO_write_def MMapIO_init_def Let_def)

section \<open>Claim C7: reclaimable bytes when a delete is replayed\<close>

lemma read_log_record_at:
  assumes "length (rec_key r) < 2 ^ 32" "length (rec_value r) < 2 ^ 32"
      and "rec_type r \<in> {NORMAL, DELETED, TXNFINISHED}" "rec_key r \<noteq> []"
      and "int (length (rec_key r)) + int (length (rec_value r)) \<le> SANITY_CAP"
      and "offset = int (length pre)"
  shows "read_log_record (pre @ encoded r @ post) offset
           = Some (r, 13 + int (length (rec_key r)) + int (length (rec_value r)))"
  using assms read_log_record_encoded [of r pre post] by simp

lemma read_log_record_eof: "offset \<ge> int (length f) \<Longrightarrow> read_log_record f offset = None"
  by (simp add: read_log_record_def FileIO_size_def)

lemma load_records_None:
  "read_log_record f offset = None \<Longrightarrow> load_records f file_id offset db = db"
  by (subst load_records.simps) simp

lemma load_records_Some:
  "read_log_record f offset = Some (r, sz) \<Longrightarrow>
   load_records f file_id offset db
     = load_records f file_id (offset + sz) (apply_loaded_record file_id offset sz r db)"
  by (subst load_records.simps) simp

text \<open>
  C7 (as amended).  During segment replay on open, processing a \<open>DELETED\<close> record
  removes the key's index entry and increases \<open>reclaim_size\<close> by the size of the
  position previously indexed for that key, when one exists, and by nothing otherwise;
  the \<open>DELETED\<close> record's own size is not added.  Replay then goes on behind the record.
\<close>

theorem load_records_DELETED:
  assumes "read_log_record f offset = Some (r, sz)" and "rec_type r = DELETED"
  shows "load_records f file_id offset db
           = load_records f file_id (offset + sz)
               (db\<lparr>db_index := (db_index db)(rec_key r := None),
                   db_reclaim_size :=
                     db_reclaim_size db
                       + (case db_index db (rec_key r) of None \<Rightarrow> 0 | Some old \<Rightarrow> pos_size old)\<rparr>)"
proof -
  have "apply_loaded_record file_id offset sz r db
          = db\<lparr>db_index := (db_index db)(rec_key r := None),
               db_reclaim_size :=
                 db_reclaim_size db
                   + (case db_index db (rec_key r) of None \<Rightarrow> 0 | Some old \<Rightarrow> pos_size old)\<rparr>"
    using assms(2)
    by (cases "db_index db (rec_key r)") (simp_all add: apply_loaded_record_def index_delete_def)
  moreover have "load_records f file_id offset db
          = load_records f file_id (offset + sz) (apply_loaded_record file_id offset sz r db)"
    using assms(1) by (subst load_records.simps) simp
  ultimately show ?thesis
    by simp
qed

theorem load_records_DELETED_witness:
  "load_records (encoded c7_del) 1 0
     ((DB_init c7_options [])
        \<lparr>db_index := [[0x61] \<mapsto> \<lparr>pos_file_id = 1, pos_offset = 0, pos_size = 15\<rparr>]\<rparr>)
   = (DB_init c7_options [])\<lparr>db_index := Map.empty, db_reclaim_size := 15\<rparr>"
proof -
  let ?db = "(DB_init c7_options [])
        \<lparr>db_index := [[0x61] \<mapsto> \<lparr>pos_file_id = 1, pos_offset = 0, pos_size = 15\<rparr>]\<rparr>"
  have r: "read_log_record (encoded c7_del) 0 = Some (c7_del, 14)"
    using read_log_record_at [of c7_del 0 "[]" "[]"] by (simp add: c7_del_def SANITY_CAP_def)
  have e: "read_log_record (encoded c7_del) (0 + 14) = None"
    by (rule read_log_record_eof) (simp add: c7_del_def)
  have t: "rec_type c7_del = DELETED"
    by (simp add: c7_del_def)
  have "load_records (encoded c7_del) 1 (0 + 14) X = X" for X
    using e by (rule load_records_None)
  then show ?thesis
    using load_records_DELETED [OF r t, of 1 ?db]
    by (simp add: c7_del_def DB_init_def)
qed

text \<open>
  As stated, C7 fails: replaying a segment that holds a put of key \<open>a\<close> (15 bytes) and
  then its delete (14 bytes) leaves \<open>reclaim_size\<close> at 15, the size of the superseded put
  alone, not at 15 + 14.
\<close>

theorem load_records_reclaim_counterexample:
  "db_reclaim_size (load_records (encoded c7_put @ encoded c7_del) 1 0 (DB_init c7_options []))
     = 15
   \<and> int (length (encoded c7_put)) = 15 \<and> int (length (encoded c7_del)) = 14"
proof -
  let ?f = "encoded c7_put @ encoded c7_del"
  have r1: "read_log_record ?f 0 = Some (c7_put, 15)"
    using read_log_record_at [of c7_put 0 "[]" "encoded c7_del"]
    by (simp add: c7_put_def SANITY_CAP_def)
  have r2: "read_log_record ?f 15 = Some (c7_del, 14)"
    using read_log_record_at [of c7_del 15 "encoded c7_put" "[]"]
    by (simp add: c7_del_def c7_put_def SANITY_CAP_def)
  have r3: "read_log_record ?f 29 = None"
    by (rule read_log_record_eof) (simp add: c7_del_def c7_put_def)
  have "load_records ?f 1 0 (DB_init c7_options [])
          = apply_loaded_record 1 15 14 c7_del
              (apply_loaded_record 1 0 15 c7_put (DB_init c7_options []))"
    using load_records_Some [OF r1] load_records_Some [OF r2] load_records_None [OF r3]
    by simp
  then show ?thesis
    by (simp add: apply_loaded_record_def index_put_def index_delete_def DB_init_def
          c7_put_def c7_del_def)
qed

section \<open>Claim C4: opening after an interrupted merge\<close>

lemma py_int_merge: "py_int (split_dot_first ''merge.data'') = None"
  by (simp add: py_int_def int_of_text_def py_digits_def is_digit_def is_space_def
        split_dot_first_def)

lemma py_int_seg1: "py_int (split_dot_first ''000000001.data'') = Some 1"
  by (simp add: py_int_def int_of_text_def py_digits_def is_digit_def is_space_def
        split_dot_first_def MAX_STR_DIGITS_def)

lemma c4_names:
  "data_file_names (write_file c4_dir FILE_LOCK_NAME []) = [''000000001.data'', ''merge.data'']"
  by (simp add: data_file_names_def listdir_def write_file_def c4_dir_def c4_dir0_def
        MERGE_FILENAME_def FILE_LOCK_NAME_def endswith_def startswith_def
        DATA_FILE_NAME_SUFFIX_def)

lemma c4_open_fails: "DB_open host0 c7_options c4_dir = Inl ValueError"
  by (simp add: DB_open_def host0_def load_data_files_def DB_init_def c4_names
        py_int_merge py_int_seg1)

lemma str_nat_digit: "n < 10 \<Longrightarrow> str_nat n = [digit_char n]"
  by (subst str_nat.simps) simp

lemma replicate_numeral:
  "replicate (numeral k) x = x # replicate (pred_numeral k) x"
  by (simp add: numeral_eq_Suc)

lemma digit_char_1: "digit_char 1 = CHR ''1''" "digit_char (Suc 0) = CHR ''1''"
  by (simp_all add: digit_char_def)

lemma path1: "get_data_file_path 1 = ''000000001.data''"
  by (simp add: get_data_file_path_def fmt09_def str_nat_digit digit_char_1
        DATA_FILE_NAME_SUFFIX_def replicate_numeral)

lemma c4_names0:
  "data_file_names (write_file c4_dir0 FILE_LOCK_NAME []) = [''000000001.data'']"
  by (simp add: data_file_names_def listdir_def write_file_def c4_dir0_def FILE_LOCK_NAME_def
        endswith_def startswith_def DATA_FILE_NAME_SUFFIX_def)

lemma c4_load0:
  "load_data_files (DB_init c7_options (write_file c4_dir0 FILE_LOCK_NAME []))
     = Inr ((DB_init c7_options (write_file c4_dir0 FILE_LOCK_NAME []))
              \<lparr>db_file_ids := [1],
               db_active_file := Some \<lparr>df_file_id = 1, df_write_offset = 15\<rparr>\<rparr>)"
  apply (simp add: load_data_files_def DB_init_def c4_names0 py_int_seg1 Let_def)
  apply (simp add: DataFile_init_def path1 open_append_def file_exists_def write_file_def
           c4_dir0_def FILE_LOCK_NAME_def file_content_def FileIO_size_def c7_put_def Let_def)
  done


lemma c4_read0: "read_log_record (encoded c7_put) 0 = Some (c7_put, 15)"
  using read_log_record_at [of c7_put 0 "[]" "[]"] by (simp add: c7_put_def SANITY_CAP_def)

lemma c4_read15: "read_log_record (encoded c7_put) 15 = None"
  by (rule read_log_record_eof) (simp add: c7_put_def)

lemma c4_load_records:
  "load_records (encoded c7_put) 1 0 db = apply_loaded_record 1 0 15 c7_put db"
  using load_records_Some [OF c4_read0, of 1 db] load_records_None [OF c4_read15] by simp

lemma c4_open0: "DB_open host0 c7_options c4_dir0 = Inr c4_db"
  apply (simp add: DB_open_def host0_def c4_load0)
  apply (simp add: load_merge_files_def load_index_from_hint_file_def load_index_from_files_def
           file_exists_def write_file_def c4_dir0_def FILE_LOCK_NAME_def MERGE_FINISHED_FILE_def
           HINT_FILE_def DB_init_def path1 file_content_def c4_load_records Let_def)
  apply (simp add: apply_loaded_record_def index_put_def c7_put_def c7_options_def
           load_seq_no_def file_exists_def SEQ_NO_FILE_def FileIO_size_def c4_db_def Let_def
           path1 file_content_def)
  done

lemma c4_get0: "DB_get c4_db [0x61] = Inr (Some [0x31])"
  apply (simp add: DB_get_def c4_db_def index_get_def get_value_by_position_def path1
           file_content_def c4_read0)
  apply (simp add: c7_put_def)
  done


text \<open>
  C4.  The claim says that after a merge interrupted before its marker is written, with
  \<open>merge.data\<close> beside the segments, the next open succeeds and recovers the state.
  Without the scratch file the directory opens and \<open>get\<close> finds the value of key
  \<open>a\<close>.  With the scratch file, which \<open>merge\<close> creates first of all,
  \<open>load_data_files\<close> takes \<open>merge.data\<close> for a segment (the name ends in
  \<open>.data\<close> and has none of the excluded prefixes), \<open>int("merge")\<close> raises
  \<open>ValueError\<close>, and the open fails.
\<close>

theorem DB_open_after_interrupted_merge:
  "DB_open host0 c7_options c4_dir0 = Inr c4_db
   \<and> DB_get c4_db [0x61] = Inr (Some [0x31])
   \<and> c4_dir = [(''000000001.data'', encoded c7_put), (''merge.data'', [])]
   \<and> DB_open host0 c7_options c4_dir = Inl ValueError"
  using c4_open0 c4_get0 c4_open_fails
  by (simp add: c4_dir_def c4_dir0_def write_file_def MERGE_FILENAME_def)

section \<open>Facts about the write path\<close>

lemma map_of_update_alist [simp]:
  "map_of (AList.update k v d) k' = (if k' = k then Some v else map_of d k')"
  by (simp add: update_conv')

lemma file_content_open_append [simp]:
  "file_content (open_append d n) m = file_content d m"
  by (simp add: file_content_def open_append_def file_exists_def split: option.splits)

lemma file_content_append_file [simp]:
  "file_content (append_file d n c) m
     = (if m = n then file_content d n @ c else file_content d m)"
  by (simp add: file_content_def append_file_def)

lemma record_at_open_append [simp]: "record_at (open_append d n) p r = record_at d p r"
  by (simp add: record_at_def)

lemma record_at_append_file:
  "record_at d p r \<Longrightarrow> record_at (append_file d n c) p r"
  unfolding record_at_def
  by (cases "get_data_file_path (pos_file_id p) = n") (auto simp: append_eq_append_conv2)

lemma record_at_new:
  "pos_offset p = int (length (file_content d n)) \<Longrightarrow> get_data_file_path (pos_file_id p) = n \<Longrightarrow>
   record_at (append_file d n (encoded r)) p r"
  unfolding record_at_def
  by (rule exI [of _ "file_content d n"], rule exI [of _ "[]"]) simp


lemma append_log_record_ready:
  assumes ready: "db_ready db"
      and K: "length (rec_key r) < 2 ^ 32" and V: "length (rec_value r) < 2 ^ 32"
  shows "\<exists>pos db'. append_log_record db r = (Inr pos, db') \<and> append_result db r pos db'"
proof -
  from ready obtain af where af: "db_active_file db = Some af"
    and wo: "df_write_offset af
               = int (length (file_content (db_dir db) (get_data_file_path (df_file_id af))))"
    and open': "\<not> db_is_closed db" and ok: "older_ok db"
    by (auto simp: db_ready_def split: option.splits)
  have enc: "LogRecord_encode r = Inr (encoded r, length (encoded r))"
    using LogRecord_encode_encoded [OF K V] by simp
  show ?thesis
  proof (cases "df_write_offset af \<ge> opt_max_file_size (db_options db)")
    case False
    let ?n = "get_data_file_path (df_file_id af)"
    let ?pos = "\<lparr>pos_file_id = df_file_id af, pos_offset = df_write_offset af,
                 pos_size = int (length (encoded r))\<rparr>"
    let ?db' = "db\<lparr>db_active_file :=
                      Some (af\<lparr>df_write_offset := df_write_offset af + int (length (encoded r))\<rparr>),
                    db_dir := append_file (db_dir db) ?n (encoded r)\<rparr>"
    have eq: "append_log_record db r = (Inr ?pos, ?db')"
      using False af enc by (simp add: append_log_record_def write_log_record_def Let_def)
    have "append_result db r ?pos ?db'"
      unfolding append_result_def
      using af wo open' ok
      by (auto simp: db_ready_def older_ok_def resolves_def record_at_append_file
            intro!: record_at_new)
    with eq show ?thesis by blast
  next
    case True
    define new_id where
      "new_id = (if db_file_ids db \<noteq> [] then last (db_file_ids db) + 1 else 1)"
    let ?n = "get_data_file_path new_id"
    let ?d1 = "open_append (db_dir db) ?n"
    let ?off = "int (length (file_content (db_dir db) ?n))"
    let ?pos = "\<lparr>pos_file_id = new_id, pos_offset = ?off, pos_size = int (length (encoded r))\<rparr>"
    let ?db' = "db\<lparr>db_older_files := (db_older_files db)(df_file_id af \<mapsto> af),
                    db_active_file :=
                      Some \<lparr>df_file_id = new_id, df_write_offset = ?off + int (length (encoded r))\<rparr>,
                    db_dir := append_file ?d1 ?n (encoded r),
                    db_file_ids := db_file_ids db @ [new_id]\<rparr>"
    have eq: "append_log_record db r = (Inr ?pos, ?db')"
      using True af enc
      by (simp add: append_log_record_def write_log_record_def DataFile_init_def Let_def
            new_id_def FileIO_size_def)
    have "append_result db r ?pos ?db'"
      unfolding append_result_def
      using af wo open' ok
      by (auto simp: db_ready_def older_ok_def resolves_def record_at_append_file
            intro!: record_at_new)
    with eq show ?thesis by blast
  qed
qed

section \<open>Facts about put, get and delete\<close>

lemma sync_policy_fields [simp]:
  "db_index (sync_policy db) = db_index db"
  "db_dir (sync_policy db) = db_dir db"
  "db_active_file (sync_policy db) = db_active_file db"
  "db_older_files (sync_policy db) = db_older_files db"
  "db_is_closed (sync_policy db) = db_is_closed db"
  "db_options (sync_policy db) = db_options db"
  "db_seq_no (sync_policy db) = db_seq_no db"
  "db_file_ids (sync_policy db) = db_file_ids db"
  by (simp_all add: sync_policy_def)

lemma add_reclaim_fields [simp]:
  "db_index (add_reclaim old db) = db_index db"
  "db_dir (add_reclaim old db) = db_dir db"
  "db_active_file (add_reclaim old db) = db_active_file db"
  "db_older_files (add_reclaim old db) = db_older_files db"
  "db_is_closed (add_reclaim old db) = db_is_closed db"
  "db_options (add_reclaim old db) = db_options db"
  "db_seq_no (add_reclaim old db) = db_seq_no db"
  "db_file_ids (add_reclaim old db) = db_file_ids db"
  by (simp_all add: add_reclaim_def split: option.splits)

text \<open>Readiness, resolution and storage depend on these fields only.\<close>

lemma db_ready_cong:
  "db_is_closed a = db_is_closed b \<Longrightarrow> db_older_files a = db_older_files b \<Longrightarrow>
   db_active_file a = db_active_file b \<Longrightarrow> db_dir a = db_dir b \<Longrightarrow>
   db_ready a = db_ready b"
  by (auto simp: db_ready_def older_ok_def split: option.splits)

lemma resolves_cong:
  "db_older_files a = db_older_files b \<Longrightarrow> db_active_file a = db_active_file b \<Longrightarrow>
   resolves a = resolves b"
  by (auto simp: resolves_def fun_eq_iff split: option.splits)

lemma DB_get_stored:
  assumes ready: "db_ready db" and st: "stored db k v" and k: "k \<noteq> []"
      and K: "length k < 2 ^ 32" and V: "length v < 2 ^ 32"
  shows "DB_get db k
           = Inr (if int (length k) + int (length v) > SANITY_CAP then None else Some v)"
proof -
  let ?r = "\<lparr>rec_key = k, rec_value = v, rec_type = NORMAL\<rparr>"
  from st obtain p pre post where p: "db_index db k = Some p"
    and res: "resolves db (pos_file_id p)"
    and fc: "file_content (db_dir db) (get_data_file_path (pos_file_id p)) = pre @ encoded ?r @ post"
    and off: "pos_offset p = int (length pre)"
    by (auto simp: stored_def record_at_def)
  from ready obtain af where af: "db_active_file db = Some af" and ok: "older_ok db"
    and op: "\<not> db_is_closed db"
    by (auto simp: db_ready_def split: option.splits)
  have sel: "\<exists>df. (if pos_file_id p = df_file_id af then Some af
                  else db_older_files db (pos_file_id p)) = Some df
                \<and> df_file_id df = pos_file_id p"
    using res af ok by (auto simp: resolves_def older_ok_def)
  have rd: "read_log_record (pre @ encoded ?r @ post) (int (length pre))
              = (if int (length k) + int (length v) > SANITY_CAP then None
                 else Some (?r, 13 + int (length k) + int (length v)))"
    using read_log_record_encoded [of ?r pre post] K V k by simp
  from sel obtain df where df: "(if pos_file_id p = df_file_id af then Some af
                  else db_older_files db (pos_file_id p)) = Some df"
    and dfid: "df_file_id df = pos_file_id p"
    by blast
  have "get_value_by_position db p
          = Inr (if int (length k) + int (length v) > SANITY_CAP then None else Some v)"
    unfolding get_value_by_position_def
    by (simp only: af option.case df dfid fc off rd) simp
  then show ?thesis
    using op k p by (simp add: DB_get_def index_get_def)
qed

lemma DB_get_absent:
  "\<not> db_is_closed db \<Longrightarrow> k \<noteq> [] \<Longrightarrow> db_index db k = None \<Longrightarrow> DB_get db k = Inr None"
  by (simp add: DB_get_def index_get_def)

lemma stored_append:
  assumes "append_result db r pos db'" and "stored db k v"
  shows "stored db' k v"
  using assms unfolding append_result_def stored_def by metis

lemma DB_put_ready:
  assumes ready: "db_ready db" and k: "k \<noteq> []"
      and K: "length k < 2 ^ 32" and V: "length v < 2 ^ 32"
  shows "\<exists>db'. DB_put db k v = (Inr (), db') \<and> db_ready db' \<and> stored db' k v
           \<and> db_options db' = db_options db \<and> db_seq_no db' = db_seq_no db
           \<and> (\<forall>k' v'. k' \<noteq> k \<longrightarrow> stored db k' v' \<longrightarrow> stored db' k' v')
           \<and> (\<forall>k'. k' \<noteq> k \<longrightarrow> db_index db' k' = db_index db k')"
proof -
  let ?r = "\<lparr>rec_key = k, rec_value = v, rec_type = NORMAL\<rparr>"
  from append_log_record_ready [of db ?r] ready K V
  obtain pos db1 where a: "append_log_record db ?r = (Inr pos, db1)"
    and ar: "append_result db ?r pos db1"
    by auto
  define db' where
    "db' = sync_policy
             ((add_reclaim (db_index db1 k) (db1\<lparr>db_index := (db_index db1)(k \<mapsto> pos)\<rparr>))
                \<lparr>db_bytes_write :=
                   db_bytes_write (add_reclaim (db_index db1 k)
                                     (db1\<lparr>db_index := (db_index db1)(k \<mapsto> pos)\<rparr>))
                     + int (length k) + int (length v)\<rparr>)"
  have eq: "DB_put db k v = (Inr (), db')"
    using ready k a by (simp add: DB_put_def db_ready_def index_put_def Let_def db'_def)
  have f: "db_index db' = (db_index db1)(k \<mapsto> pos)" "db_dir db' = db_dir db1"
    "db_active_file db' = db_active_file db1" "db_older_files db' = db_older_files db1"
    "db_is_closed db' = db_is_closed db1" "db_options db' = db_options db1"
    "db_seq_no db' = db_seq_no db1"
    by (simp_all add: db'_def)
  have r1: "db_ready db1" "db_index db1 = db_index db" "resolves db1 (pos_file_id pos)"
    "record_at (db_dir db1) pos ?r" "db_options db1 = db_options db" "db_seq_no db1 = db_seq_no db"
    using ar by (simp_all add: append_result_def)
  have ready': "db_ready db'"
    using r1(1) db_ready_cong [of db' db1] f by simp
  have res: "resolves db' = resolves db1"
    using resolves_cong [of db' db1] f by simp
  have st: "stored db' k v"
    using r1 by (simp add: stored_def f res)
  have keep: "stored db' k' v'" if "k' \<noteq> k" "stored db k' v'" for k' v'
  proof -
    have "stored db1 k' v'"
      using ar that(2) by (rule stored_append)
    then show ?thesis
      using that(1) by (simp add: stored_def f res)
  qed
  have idx: "db_index db' k' = db_index db k'" if "k' \<noteq> k" for k'
    using that by (simp add: f r1)
  show ?thesis
    using eq ready' st keep idx f r1 by auto
qed

lemma DB_delete_ready:
  assumes ready: "db_ready db" and k: "k \<noteq> []" and K: "length k < 2 ^ 32"
  shows "\<exists>db'. DB_delete db k = (Inr (), db') \<and> db_ready db' \<and> db_index db' k = None
           \<and> db_options db' = db_options db \<and> db_seq_no db' = db_seq_no db
           \<and> (\<forall>k' v'. k' \<noteq> k \<longrightarrow> stored db k' v' \<longrightarrow> stored db' k' v')
           \<and> (\<forall>k'. k' \<noteq> k \<longrightarrow> db_index db' k' = db_index db k')"
proof (cases "db_index db k = None")
  case True
  then have "DB_delete db k = (Inr (), db)"
    using ready k by (simp add: DB_delete_def db_ready_def index_get_def)
  then show ?thesis
    using ready True by auto
next
  case False
  let ?r = "\<lparr>rec_key = k, rec_value = [], rec_type = DELETED\<rparr>"
  from append_log_record_ready [of db ?r] ready K
  obtain pos db1 where a: "append_log_record db ?r = (Inr pos, db1)"
    and ar: "append_result db ?r pos db1"
    by auto
  define db' where
    "db' = sync_policy
             ((add_reclaim (db_index db1 k) (db1\<lparr>db_index := (db_index db1)(k := None)\<rparr>))
                \<lparr>db_bytes_write :=
                   db_bytes_write (add_reclaim (db_index db1 k)
                                     (db1\<lparr>db_index := (db_index db1)(k := None)\<rparr>))
                     + int (length k)\<rparr>)"
  from False obtain y where y: "db_index db k = Some y"
    by auto
  have eq: "DB_delete db k = (Inr (), db')"
    using ready k a y
    by (simp add: DB_delete_def db_ready_def index_delete_def index_get_def Let_def db'_def)
  have f: "db_index db' = (db_index db1)(k := None)" "db_dir db' = db_dir db1"
    "db_active_file db' = db_active_file db1" "db_older_files db' = db_older_files db1"
    "db_is_closed db' = db_is_closed db1" "db_options db' = db_options db1"
    "db_seq_no db' = db_seq_no db1"
    by (simp_all add: db'_def)
  have r1: "db_ready db1" "db_index db1 = db_index db" "db_options db1 = db_options db"
    "db_seq_no db1 = db_seq_no db"
    using ar by (simp_all add: append_result_def)
  have ready': "db_ready db'"
    using r1(1) db_ready_cong [of db' db1] f by simp
  have res: "resolves db' = resolves db1"
    using resolves_cong [of db' db1] f by simp
  have keep: "stored db' k' v'" if "k' \<noteq> k" "stored db k' v'" for k' v'
  proof -
    have "stored db1 k' v'"
      using ar that(2) by (rule stored_append)
    then show ?thesis
      using that(1) by (simp add: stored_def f res)
  qed
  have idx: "db_index db' k' = db_index db k'" if "k' \<noteq> k" for k'
    using that by (simp add: f r1)
  show ?thesis
    using eq ready' keep idx f r1 by auto
qed

section \<open>Claim C2: the round trip through put, delete and get\<close>

lemma run_ops_tracks:
  assumes "db_ready db" and "tracks db m" and "list_all op_fits ops"
  shows "\<exists>db'. run_ops db ops = Inr db' \<and> db_ready db' \<and> tracks db' (last_writes m ops)"
  using assms
proof (induction ops arbitrary: db m)
  case Nil
  then show ?case by simp
next
  case (Cons op ops)
  show ?case
  proof (cases op)
    case (Put k v)
    have ok: "k \<noteq> []" and K: "length k < 2 ^ 32" and V: "length v < 2 ^ 32"
      using Cons.prems(3) Put by simp_all
    from DB_put_ready [OF Cons.prems(1) ok K V]
    obtain db1 where p: "DB_put db k v = (Inr (), db1)" and r1: "db_ready db1"
      and st: "stored db1 k v"
      and keep: "\<And>k' v'. k' \<noteq> k \<Longrightarrow> stored db k' v' \<Longrightarrow> stored db1 k' v'"
      and idx: "\<And>k'. k' \<noteq> k \<Longrightarrow> db_index db1 k' = db_index db k'"
      by blast
    have t1: "tracks db1 (m(k \<mapsto> Some v))"
      unfolding tracks_def
    proof
      fix k'
      show "case (m(k \<mapsto> Some v)) k' of
              None \<Rightarrow> True
            | Some None \<Rightarrow> k' \<noteq> [] \<and> db_index db1 k' = None
            | Some (Some v') \<Rightarrow>
                k' \<noteq> [] \<and> length k' < 2 ^ 32 \<and> length v' < 2 ^ 32 \<and> stored db1 k' v'"
      proof (cases "k' = k")
        case True
        then show ?thesis using st ok K V by simp
      next
        case False
        have "case m k' of
                None \<Rightarrow> True
              | Some None \<Rightarrow> k' \<noteq> [] \<and> db_index db k' = None
              | Some (Some v') \<Rightarrow>
                  k' \<noteq> [] \<and> length k' < 2 ^ 32 \<and> length v' < 2 ^ 32 \<and> stored db k' v'"
          using Cons.prems(2) by (simp add: tracks_def)
        then show ?thesis
          using False keep [of k'] idx [of k'] by (auto split: option.splits)
      qed
    qed
    have l: "list_all op_fits ops"
      using Cons.prems(3) by simp
    from Cons.IH [OF r1 t1 l]
    obtain db' where "run_ops db1 ops = Inr db'" "db_ready db'"
      "tracks db' (last_writes (m(k \<mapsto> Some v)) ops)"
      by blast
    then have "run_ops db (op # ops) = Inr db' \<and> db_ready db'
                 \<and> tracks db' (last_writes m (op # ops))"
      using p Put by simp
    then show ?thesis by blast
  next
    case (Delete k)
    have ok: "k \<noteq> []" and K: "length k < 2 ^ 32"
      using Cons.prems(3) Delete by simp_all
    from DB_delete_ready [OF Cons.prems(1) ok K]
    obtain db1 where p: "DB_delete db k = (Inr (), db1)" and r1: "db_ready db1"
      and st: "db_index db1 k = None"
      and keep: "\<And>k' v'. k' \<noteq> k \<Longrightarrow> stored db k' v' \<Longrightarrow> stored db1 k' v'"
      and idx: "\<And>k'. k' \<noteq> k \<Longrightarrow> db_index db1 k' = db_index db k'"
      by blast
    have t1: "tracks db1 (m(k \<mapsto> None))"
      unfolding tracks_def
    proof
      fix k'
      show "case (m(k \<mapsto> None)) k' of
              None \<Rightarrow> True
            | Some None \<Rightarrow> k' \<noteq> [] \<and> db_index db1 k' = None
            | Some (Some v') \<Rightarrow>
                k' \<noteq> [] \<and> length k' < 2 ^ 32 \<and> length v' < 2 ^ 32 \<and> stored db1 k' v'"
      proof (cases "k' = k")
        case True
        then show ?thesis using st ok by simp
      next
        case False
        have "case m k' of
                None \<Rightarrow> True
              | Some None \<Rightarrow> k' \<noteq> [] \<and> db_index db k' = None
              | Some (Some v') \<Rightarrow>
                  k' \<noteq> [] \<and> length k' < 2 ^ 32 \<and> length v' < 2 ^ 32 \<and> stored db k' v'"
          using Cons.prems(2) by (simp add: tracks_def)
        then show ?thesis
          using False keep [of k'] idx [of k'] by (auto split: option.splits)
      qed
    qed
    have l: "list_all op_fits ops"
      using Cons.prems(3) by simp
    from Cons.IH [OF r1 t1 l]
    obtain db' where "run_ops db1 ops = Inr db'" "db_ready db'"
      "tracks db' (last_writes (m(k \<mapsto> None)) ops)"
      by blast
    then have "run_ops db (op # ops) = Inr db' \<and> db_ready db'
                 \<and> tracks db' (last_writes m (op # ops))"
      using p Delete by simp
    then show ?thesis by blast
  qed
qed

lemma tracks_get:
  assumes "db_ready db" and "tracks db m"
  shows "m k = Some (Some v) \<Longrightarrow> DB_get db k = Inr (readable k v)"
    and "m k = Some None \<Longrightarrow> DB_get db k = Inr None"
proof -
  assume a: "m k = Some (Some v)"
  then have s: "k \<noteq> []" "length k < 2 ^ 32" "length v < 2 ^ 32" "stored db k v"
    using assms(2) by (auto simp: tracks_def dest: spec [of _ k])
  from DB_get_stored [OF assms(1) s(4) s(1) s(2) s(3)]
  show "DB_get db k = Inr (readable k v)" by (simp add: readable_def)
next
  assume a: "m k = Some None"
  then have "k \<noteq> []" "db_index db k = None"
    using assms(2) by (auto simp: tracks_def dest: spec [of _ k])
  then show "DB_get db k = Inr None"
    using assms(1) by (simp add: DB_get_absent db_ready_def)
qed

lemma c4_db_ready: "db_ready c4_db"
  by (simp add: db_ready_def older_ok_def c4_db_def file_content_def path1 c7_put_def)

text \<open>
  The round trip in general.  From a database that is open and ready to write, every
  sequence of puts and deletes with non-empty keys, keys and values each shorter than
  \<open>2^32\<close> bytes, runs without an exception.  Afterwards \<open>get(k)\<close> returns \<open>None\<close> when the
  last operation on \<open>k\<close> was a delete; when it was a put of \<open>v\<close>, \<open>get(k)\<close> returns \<open>v\<close> if
  key and value together are at most 100 MiB, and \<open>None\<close> if they are more.
\<close>

lemma run_ops_roundtrip:
  assumes "db_ready db" and "list_all op_fits ops"
  shows "\<exists>db'. run_ops db ops = Inr db'
           \<and> (\<forall>k v. last_writes Map.empty ops k = Some (Some v)
                  \<longrightarrow> DB_get db' k = Inr (readable k v))
           \<and> (\<forall>k. last_writes Map.empty ops k = Some None \<longrightarrow> DB_get db' k = Inr None)"
proof -
  have "tracks db Map.empty"
    by (simp add: tracks_def)
  from run_ops_tracks [OF assms(1) this assms(2)]
  obtain db' where r: "run_ops db ops = Inr db'" and rd: "db_ready db'"
    and t: "tracks db' (last_writes Map.empty ops)"
    by blast
  show ?thesis
    using r tracks_get [OF rd t] by blast
qed

lemma run_ops_roundtrip_S1:
  "\<exists>db'. run_ops c4_db c2_ops = Inr db'
         \<and> DB_get db' [0x61] = Inr (Some [0x33])
         \<and> DB_get db' [0x62] = Inr None"
proof -
  have ok: "list_all op_fits c2_ops"
    by (simp add: c2_ops_def)
  from run_ops_roundtrip [OF c4_db_ready ok]
  obtain db' where r: "run_ops c4_db c2_ops = Inr db'"
    and a: "\<And>k v. last_writes Map.empty c2_ops k = Some (Some v)
                \<Longrightarrow> DB_get db' k = Inr (readable k v)"
    and b: "\<And>k. last_writes Map.empty c2_ops k = Some None \<Longrightarrow> DB_get db' k = Inr None"
    by blast
  have "last_writes Map.empty c2_ops [0x61] = Some (Some [0x33])"
    and "last_writes Map.empty c2_ops [0x62] = Some None"
    by (simp_all add: c2_ops_def)
  then have "DB_get db' [0x61] = Inr (readable [0x61] [0x33])" and "DB_get db' [0x62] = Inr None"
    using a b by blast+
  then show ?thesis
    using r by (auto simp: readable_def SANITY_CAP_def)
qed

lemma put_get_small:
  "fst (DB_put c4_db [0x62] [0x32]) = Inr ()
   \<and> DB_get (snd (DB_put c4_db [0x62] [0x32])) [0x62] = Inr (Some [0x32])"
proof -
  have K: "length [0x62 :: byte] < 2 ^ 32" and V: "length [0x32 :: byte] < 2 ^ 32"
    by simp_all
  have k: "[0x62 :: byte] \<noteq> []"
    by simp
  from DB_put_ready [OF c4_db_ready k K V]
  obtain db' where p: "DB_put c4_db [0x62] [0x32] = (Inr (), db')" and rd: "db_ready db'"
    and st: "stored db' [0x62] [0x32]"
    by blast
  have "DB_get db' [0x62] = Inr (Some [0x32])"
    using DB_get_stored [OF rd st k K V] by (simp add: SANITY_CAP_def)
  then show ?thesis
    using p by simp
qed

lemma put_get_big:
  "fst (DB_put c4_db [0x62] c2_big) = Inr ()
   \<and> DB_get (snd (DB_put c4_db [0x62] c2_big)) [0x62] = Inr None"
proof -
  have K: "length [0x62 :: byte] < 2 ^ 32" and V: "length c2_big < 2 ^ 32"
    by (simp_all add: c2_big_def)
  have k: "[0x62 :: byte] \<noteq> []"
    by simp
  from DB_put_ready [OF c4_db_ready k K V]
  obtain db' where p: "DB_put c4_db [0x62] c2_big = (Inr (), db')" and rd: "db_ready db'"
    and st: "stored db' [0x62] c2_big"
    by blast
  have "DB_get db' [0x62] = Inr None"
    using DB_get_stored [OF rd st k K V] by (simp add: c2_big_def SANITY_CAP_def)
  then show ?thesis
    using p by simp
qed

text \<open>
  C2.  The claim says that \<open>get(k)\<close> returns the value most recently written for \<open>k\<close>.
  Open the directory whose one segment holds key \<open>a\<close>.  A put of a one-byte value under
  key \<open>b\<close> returns normally and \<open>get\<close> returns the value.  A put of a value of 100 MiB
  under key \<open>b\<close> returns normally as well: \<open>put\<close> has no size limit, the record is
  appended and indexed.  The next \<open>get\<close> of \<open>b\<close> returns \<open>None\<close>, because
  \<open>read_log_record\<close> refuses a header whose key and value lengths exceed 100 MiB
  together: the reader rejects a record that the writer has accepted and acknowledged.
\<close>

theorem put_then_get_oversize_value:
  "DB_open host0 c7_options c4_dir0 = Inr c4_db
   \<and> fst (DB_put c4_db [0x62] [0x32]) = Inr ()
   \<and> DB_get (snd (DB_put c4_db [0x62] [0x32])) [0x62] = Inr (Some [0x32])
   \<and> length c2_big = 100 * 1024 * 1024
   \<and> fst (DB_put c4_db [0x62] c2_big) = Inr ()
   \<and> DB_get (snd (DB_put c4_db [0x62] c2_big)) [0x62] = Inr None"
proof -
  have "length c2_big = 100 * 1024 * 1024"
    by (simp add: c2_big_def)
  then show ?thesis
    using c4_open0 put_get_small put_get_big by simp
qed

section \<open>Facts about batches\<close>






lemma apply_positions_fields [simp]:
  "db_dir (apply_positions db ps) = db_dir db"
  "db_active_file (apply_positions db ps) = db_active_file db"
  "db_older_files (apply_positions db ps) = db_older_files db"
  "db_is_closed (apply_positions db ps) = db_is_closed db"
  "db_options (apply_positions db ps) = db_options db"
  "db_seq_no (apply_positions db ps) = db_seq_no db"
  "db_file_ids (apply_positions db ps) = db_file_ids db"
  by (induction db ps rule: apply_positions.induct)
     (simp_all add: index_put_def index_delete_def)

















section \<open>Claim C10: one pending operation per key in a batch\<close>









section \<open>Claim C1: a committed batch after reopening\<close>

lemma append_log_record_same:
  assumes "db_active_file db = Some af"
      and "df_write_offset af < opt_max_file_size (db_options db)"
      and "record_fits r"
  shows "append_log_record db r
           = (Inr \<lparr>pos_file_id = df_file_id af, pos_offset = df_write_offset af,
                   pos_size = int (length (encoded r))\<rparr>,
              db\<lparr>db_active_file :=
                     Some (af\<lparr>df_write_offset := df_write_offset af + int (length (encoded r))\<rparr>),
                 db_dir := append_file (db_dir db) (get_data_file_path (df_file_id af))
                             (encoded r)\<rparr>)"
proof -
  have "LogRecord_encode r = Inr (encoded r, length (encoded r))"
    using LogRecord_encode_encoded [of r] assms(3) by (simp add: record_fits_def)
  then show ?thesis
    using assms(1,2) by (simp add: append_log_record_def write_log_record_def Let_def)
qed

lemma append_log_record_roll:
  assumes "db_active_file db = Some af"
      and "df_write_offset af \<ge> opt_max_file_size (db_options db)"
      and "db_file_ids db \<noteq> []"
      and "record_fits r"
  shows "append_log_record db r
           = (let new_id = last (db_file_ids db) + 1;
                  n = get_data_file_path new_id;
                  d1 = open_append (db_dir db) n;
                  off = int (length (file_content (db_dir db) n))
              in (Inr \<lparr>pos_file_id = new_id, pos_offset = off,
                       pos_size = int (length (encoded r))\<rparr>,
                  db\<lparr>db_older_files := (db_older_files db)(df_file_id af \<mapsto> af),
                     db_active_file :=
                       Some \<lparr>df_file_id = new_id,
                             df_write_offset = off + int (length (encoded r))\<rparr>,
                     db_dir := append_file d1 n (encoded r),
                     db_file_ids := db_file_ids db @ [new_id]\<rparr>))"
proof -
  have "LogRecord_encode r = Inr (encoded r, length (encoded r))"
    using LogRecord_encode_encoded [of r] assms(4) by (simp add: record_fits_def)
  then show ?thesis
    using assms(1,2,3)
    by (simp add: append_log_record_def write_log_record_def DataFile_init_def Let_def
          FileIO_size_def)
qed

lemma digit_char_2: "digit_char 2 = CHR ''2''"
  by (simp add: digit_char_def numeral_2_eq_2)

lemma path2: "get_data_file_path 2 = ''000000002.data''"
  by (simp add: get_data_file_path_def fmt09_def str_nat_digit digit_char_2
        DATA_FILE_NAME_SUFFIX_def replicate_numeral)

lemma marker1 [simp]:
  "txn_marker 1 t = \<lparr>rec_key = [0x31], rec_value = [], rec_type = t\<rparr>"
  by (simp add: txn_marker_def encode_str_def str_int_def str_nat_digit digit_char_1)

lemma c1_open0: "DB_open host0 c1_options [] = Inr c1_db0"
proof -
  have n: "data_file_names (write_file [] FILE_LOCK_NAME []) = []"
    by (simp add: data_file_names_def listdir_def write_file_def FILE_LOCK_NAME_def
          endswith_def DATA_FILE_NAME_SUFFIX_def)
  have l: "load_data_files (DB_init c1_options (write_file [] FILE_LOCK_NAME []))
             = Inr ((DB_init c1_options (write_file [] FILE_LOCK_NAME []))
                      \<lparr>db_file_ids := [1],
                       db_active_file := Some \<lparr>df_file_id = 1, df_write_offset = 0\<rparr>,
                       db_dir := [(''flock'', []), (''000000001.data'', [])]\<rparr>)"
    apply (simp add: load_data_files_def DB_init_def n Let_def)
    apply (simp add: DataFile_init_def path1 open_append_def file_exists_def write_file_def
             FILE_LOCK_NAME_def file_content_def FileIO_size_def Let_def)
    done
  have r: "read_log_record [] 0 = None"
    by (rule read_log_record_eof) simp
  show ?thesis
    apply (simp add: DB_open_def host0_def l)
    apply (simp add: load_merge_files_def load_index_from_hint_file_def
             load_index_from_files_def file_exists_def MERGE_FINISHED_FILE_def HINT_FILE_def
             DB_init_def path1 file_content_def load_records_None [OF r] Let_def)
    apply (simp add: c1_options_def load_seq_no_def file_exists_def SEQ_NO_FILE_def
             FileIO_size_def c1_db0_def Let_def path1 file_content_def)
    done
qed

lemma c1_batch_ops:
  "batch_ops Batch_init [Put [0x61] [0x31], Put [0x62] [0x32]] = Inr c1_batch"
  by (simp add: Batch_init_def Batch_put_def c1_batch_def)

lemma c1_commit:
  "Batch_commit c1_batch c1_db0 = (Inr (), c1_batch\<lparr>b_is_committed := True\<rparr>, c1_db1)"
proof -
  let ?start = "\<lparr>rec_key = [0x31], rec_value = [], rec_type = TXNSTART\<rparr>"
  let ?fin = "\<lparr>rec_key = [0x31], rec_value = [], rec_type = TXNFINISHED\<rparr>"
  let ?a = "\<lparr>rec_key = [0x61], rec_value = [0x31], rec_type = NORMAL\<rparr>"
  let ?b = "\<lparr>rec_key = [0x62], rec_value = [0x32], rec_type = NORMAL\<rparr>"
  define d1 where
    "d1 = c1_db0\<lparr>db_active_file := Some \<lparr>df_file_id = 1, df_write_offset = 14\<rparr>,
                  db_dir := [(''flock'', []), (''000000001.data'', encoded ?start)]\<rparr>"
  define d2 where
    "d2 = d1\<lparr>db_active_file := Some \<lparr>df_file_id = 1, df_write_offset = 29\<rparr>,
              db_dir := [(''flock'', []), (''000000001.data'', encoded ?start @ encoded ?a)]\<rparr>"
  define d3 where
    "d3 = d2\<lparr>db_older_files := [1 \<mapsto> \<lparr>df_file_id = 1, df_write_offset = 29\<rparr>],
              db_active_file := Some \<lparr>df_file_id = 2, df_write_offset = 15\<rparr>,
              db_dir := [(''flock'', []), (''000000001.data'', encoded ?start @ encoded ?a),
                         (''000000002.data'', encoded ?b)],
              db_file_ids := [1, 2]\<rparr>"
  define d4 where
    "d4 = d3\<lparr>db_active_file := Some \<lparr>df_file_id = 2, df_write_offset = 29\<rparr>,
              db_dir := [(''flock'', []), (''000000001.data'', encoded ?start @ encoded ?a),
                         (''000000002.data'', encoded ?b @ encoded ?fin)]\<rparr>"
  have a1: "append_log_record c1_db0 ?start
              = (Inr \<lparr>pos_file_id = 1, pos_offset = 0, pos_size = 14\<rparr>, d1)"
    using append_log_record_same [of c1_db0 "\<lparr>df_file_id = 1, df_write_offset = 0\<rparr>" ?start]
    by (simp add: c1_db0_def c1_options_def record_fits_def path1 append_file_def
          file_content_def d1_def)
  have a2: "append_log_record d1 ?a
              = (Inr \<lparr>pos_file_id = 1, pos_offset = 14, pos_size = 15\<rparr>, d2)"
    using append_log_record_same [of d1 "\<lparr>df_file_id = 1, df_write_offset = 14\<rparr>" ?a]
    by (simp add: c1_db0_def c1_options_def record_fits_def path1 append_file_def
          file_content_def d1_def d2_def)
  have a3: "append_log_record d2 ?b
              = (Inr \<lparr>pos_file_id = 2, pos_offset = 0, pos_size = 15\<rparr>, d3)"
    using append_log_record_roll [of d2 "\<lparr>df_file_id = 1, df_write_offset = 29\<rparr>" ?b]
    by (simp add: c1_db0_def c1_options_def record_fits_def path2 append_file_def
          file_content_def open_append_def file_exists_def d1_def d2_def d3_def Let_def)
  have a4: "append_log_record d3 ?fin
              = (Inr \<lparr>pos_file_id = 2, pos_offset = 15, pos_size = 14\<rparr>, d4)"
    using append_log_record_same [of d3 "\<lparr>df_file_id = 2, df_write_offset = 15\<rparr>" ?fin]
    by (simp add: c1_db0_def c1_options_def record_fits_def path2 append_file_def
          file_content_def d1_def d2_def d3_def d4_def)
  have s: "db_seq_no c1_db0 = Some 0" "opt_index_type (db_options c1_db0) = BTREE"
    by (simp_all add: c1_db0_def c1_options_def)
  have fin: "apply_positions (d4\<lparr>db_seq_no := Some 1\<rparr>)
               [([0x61], \<lparr>pos_file_id = 1, pos_offset = 14, pos_size = 15\<rparr>, True),
                ([0x62], \<lparr>pos_file_id = 2, pos_offset = 0, pos_size = 15\<rparr>, True)]
             = c1_db1"
    by (simp add: index_put_def add_reclaim_def d4_def d3_def d2_def d1_def c1_db0_def
          c1_db1_def c1_segment1_def c1_segment2_def c7_put_def c1_put_b_def)
  show ?thesis
    using s a1 a2 a3 a4 fin
    by (simp add: Batch_commit_def c1_batch_def write_record_def Let_def)
qed

lemma c1_read_a: "read_log_record c1_segment1 14 = Some (c7_put, 15)"
  using read_log_record_at [of c7_put 14 "encoded (txn_marker 1 TXNSTART)" "[]"]
  by (simp add: c7_put_def SANITY_CAP_def c1_segment1_def)

lemma c1_read_start: "read_log_record c1_segment1 0 = None"
  using read_log_record_encoded [of "txn_marker 1 TXNSTART" "[]" "encoded c7_put"]
  by (simp add: c1_segment1_def)

lemma c1_read_b: "read_log_record c1_segment2 0 = Some (c1_put_b, 15)"
  using read_log_record_at [of c1_put_b 0 "[]" "encoded (txn_marker 1 TXNFINISHED)"]
  by (simp add: c1_put_b_def SANITY_CAP_def c1_segment2_def)

lemma c1_read_fin:
  "read_log_record c1_segment2 15 = Some (txn_marker 1 TXNFINISHED, 14)"
  using read_log_record_at [of "txn_marker 1 TXNFINISHED" 15 "encoded c1_put_b" "[]"]
  by (simp add: c1_put_b_def SANITY_CAP_def c1_segment2_def)

lemma c1_read_end: "read_log_record c1_segment2 29 = None"
  by (rule read_log_record_eof) (simp add: c1_segment2_def c1_put_b_def)

lemma c1_get1:
  "DB_get c1_db1 [0x61] = Inr (Some [0x31])" "DB_get c1_db1 [0x62] = Inr (Some [0x32])"
  by (simp_all add: DB_get_def c1_db1_def index_get_def get_value_by_position_def path1
        path2 file_content_def c1_read_a c1_read_b c7_put_def c1_put_b_def)

lemma c1_close:
  "db_dir (DB_close c1_db1)
     = [(''000000001.data'', c1_segment1), (''000000002.data'', c1_segment2),
        (''seq_no.data'', encoded c1_seq_no)]"
proof -
  have "LogRecord_encode c1_seq_no = Inr (encoded c1_seq_no, length (encoded c1_seq_no))"
    using LogRecord_encode_encoded [of c1_seq_no] by (simp add: c1_seq_no_def encode_str_def)
  then show ?thesis
    by (simp add: DB_close_def c1_db1_def c1_options_def save_seq_no_def str_seq_no_def
          str_int_def str_nat_digit digit_char_1 write_file_def remove_file_def
          SEQ_NO_FILE_def FILE_LOCK_NAME_def c1_seq_no_def)
qed

lemma py_int_seg2: "py_int (split_dot_first ''000000002.data'') = Some 2"
  by (simp add: py_int_def int_of_text_def py_digits_def is_digit_def is_space_def
        split_dot_first_def MAX_STR_DIGITS_def)

lemma c1_names:
  "data_file_names (write_file (db_dir (DB_close c1_db1)) FILE_LOCK_NAME [])
     = [''000000001.data'', ''000000002.data'']"
  by (simp add: c1_close data_file_names_def listdir_def write_file_def FILE_LOCK_NAME_def
        endswith_def startswith_def DATA_FILE_NAME_SUFFIX_def)

lemma c1_load:
  "load_data_files (DB_init c1_options (write_file (db_dir (DB_close c1_db1)) FILE_LOCK_NAME []))
     = Inr ((DB_init c1_options (write_file (db_dir (DB_close c1_db1)) FILE_LOCK_NAME []))
              \<lparr>db_file_ids := [1, 2],
               db_older_files := [1 \<mapsto> \<lparr>df_file_id = 1, df_write_offset = 29\<rparr>],
               db_active_file := Some \<lparr>df_file_id = 2, df_write_offset = 29\<rparr>\<rparr>)"
  apply (simp add: load_data_files_def DB_init_def c1_names py_int_seg1 py_int_seg2 Let_def)
  apply (simp add: c1_close DataFile_init_def path1 path2 open_append_def file_exists_def
           write_file_def FILE_LOCK_NAME_def file_content_def FileIO_size_def Let_def
           c1_segment1_def c1_segment2_def c7_put_def c1_put_b_def)
  done

lemma c1_replay1: "load_records c1_segment1 1 0 db = db"
  by (rule load_records_None) (rule c1_read_start)

lemma c1_replay2:
  "load_records c1_segment2 2 0 db
     = apply_loaded_record 2 15 14 (txn_marker 1 TXNFINISHED)
         (apply_loaded_record 2 0 15 c1_put_b db)"
  using load_records_Some [OF c1_read_b, of 2 db]
    load_records_Some [OF c1_read_fin, of 2 "apply_loaded_record 2 0 15 c1_put_b db"]
    load_records_None [OF c1_read_end]
  by simp

lemma c1_load_seq_no:
  "load_seq_no [(''000000001.data'', c1_segment1), (''000000002.data'', c1_segment2),
                (''seq_no.data'', encoded c1_seq_no), (''flock'', [])] = Inr (Some 1)"
proof -
  have d: "LogRecord_decode (encoded c1_seq_no) = Some c1_seq_no"
    unfolding encoded_def
    by (rule LogRecord_decode_encoded) (simp_all add: c1_seq_no_def encode_str_def)
  have e: "encoded c1_seq_no \<noteq> []"
    using length_encoded [of c1_seq_no] by (auto simp del: length_encoded)
  have i: "int_of_text [49] = Some 1"
    by (simp add: int_of_text_def py_digits_def is_digit_def is_space_def MAX_STR_DIGITS_def)
  show ?thesis
    using d e i
    by (simp add: load_seq_no_def file_exists_def file_content_def SEQ_NO_FILE_def
          c1_seq_no_def encode_str_def)
qed

lemma c1_length2: "length c1_segment2 = 29"
  by (simp add: c1_segment2_def c1_put_b_def)

lemma c1_reopen: "DB_open host0 c1_options (db_dir (DB_close c1_db1)) = Inr c1_db2"
  apply (simp add: DB_open_def host0_def c1_load)
  apply (simp add: load_merge_files_def load_index_from_hint_file_def load_index_from_files_def
           c1_close file_exists_def write_file_def FILE_LOCK_NAME_def MERGE_FINISHED_FILE_def
           HINT_FILE_def DB_init_def path1 path2 file_content_def c1_replay1 c1_replay2 Let_def)
  apply (simp add: apply_loaded_record_def index_put_def c1_put_b_def c1_options_def
           c1_load_seq_no FileIO_size_def c1_db2_def Let_def path2 file_content_def
           c1_length2)
  done

lemma c1_get2:
  "DB_get c1_db2 [0x61] = Inr None" "DB_get c1_db2 [0x62] = Inr (Some [0x32])"
  by (simp_all add: DB_get_def c1_db2_def index_get_def get_value_by_position_def
        path2 file_content_def c1_read_b c1_put_b_def)

lemma c1_truncated: "take 15 c1_segment2 = encoded c1_put_b"
  by (simp add: c1_segment2_def c1_put_b_def)

lemma c1_read_b': "read_log_record (encoded c1_put_b) 0 = Some (c1_put_b, 15)"
  using read_log_record_at [of c1_put_b 0 "[]" "[]"]
  by (simp add: c1_put_b_def SANITY_CAP_def)

lemma c1_read_end': "read_log_record (encoded c1_put_b) 15 = None"
  by (rule read_log_record_eof) (simp add: c1_put_b_def)

lemma c1_replay2':
  "load_records (encoded c1_put_b) 2 0 db = apply_loaded_record 2 0 15 c1_put_b db"
  using load_records_Some [OF c1_read_b', of 2 db] load_records_None [OF c1_read_end']
  by simp

lemma c1_names':
  "data_file_names (write_file c1_crashed FILE_LOCK_NAME [])
     = [''000000001.data'', ''000000002.data'']"
  by (simp add: c1_crashed_def data_file_names_def listdir_def write_file_def
        FILE_LOCK_NAME_def endswith_def startswith_def DATA_FILE_NAME_SUFFIX_def)

lemma c1_length1: "length c1_segment1 = 29"
  by (simp add: c1_segment1_def c7_put_def)

lemma c1_load':
  "load_data_files (DB_init c1_options (write_file c1_crashed FILE_LOCK_NAME []))
     = Inr ((DB_init c1_options (write_file c1_crashed FILE_LOCK_NAME []))
              \<lparr>db_file_ids := [1, 2],
               db_older_files := [1 \<mapsto> \<lparr>df_file_id = 1, df_write_offset = 29\<rparr>],
               db_active_file := Some \<lparr>df_file_id = 2, df_write_offset = 15\<rparr>\<rparr>)"
  apply (simp add: load_data_files_def DB_init_def c1_names' py_int_seg1 py_int_seg2 Let_def)
  apply (simp add: c1_crashed_def DataFile_init_def path1 path2 open_append_def file_exists_def
           write_file_def FILE_LOCK_NAME_def file_content_def FileIO_size_def Let_def
           c1_length1 c1_truncated c1_put_b_def)
  done

lemma c1_reopen_crashed: "DB_open host0 c1_options c1_crashed = Inr c1_db3"
  apply (simp add: DB_open_def host0_def c1_load')
  apply (simp add: load_merge_files_def load_index_from_hint_file_def load_index_from_files_def
           c1_crashed_def file_exists_def write_file_def FILE_LOCK_NAME_def
           MERGE_FINISHED_FILE_def HINT_FILE_def DB_init_def path1 path2 file_content_def
           c1_replay1 c1_truncated c1_replay2' Let_def)
  apply (simp add: apply_loaded_record_def index_put_def c1_put_b_def c1_options_def
           load_seq_no_def file_exists_def SEQ_NO_FILE_def FileIO_size_def c1_db3_def
           c1_crashed_def c1_truncated Let_def path2 file_content_def)
  done

lemma c1_get3:
  "DB_get c1_db3 [0x61] = Inr None" "DB_get c1_db3 [0x62] = Inr (Some [0x32])"
  by (simp_all add: DB_get_def c1_db3_def c1_crashed_def index_get_def
        get_value_by_position_def path2 file_content_def c1_truncated
        c1_read_b' [unfolded c1_put_b_def] c1_put_b_def)

text \<open>
  C1.  The claim says that after closing and reopening either all mutations of a
  committed batch are visible or none, also when the segment is cut just before the
  finishing marker.  Open an empty directory with a maximal segment size of 29 bytes
  and commit a batch that puts \<open>a\<close> and \<open>b\<close>.  The starting marker (14 bytes) and the
  record of \<open>a\<close> (15 bytes) fill segment 1, so the record of \<open>b\<close> and the finishing
  marker go to segment 2.  The commit returns and both keys are read back.  After
  \<open>close\<close> and a new open the replay of segment 1 ends at its first record, the
  starting marker, which \<open>read_log_record\<close> does not accept, and the replay of segment 2
  indexes \<open>b\<close>: recovery applies every record it reads at once and keeps no
  transaction apart, so \<open>b\<close> is visible and \<open>a\<close> is not.  The same holds when
  segment 2 is cut before the finishing marker and the directory is opened.
\<close>

theorem Batch_commit_not_atomic_after_reopen:
  "DB_open host0 c1_options [] = Inr c1_db0
   \<and> batch_ops Batch_init [Put [0x61] [0x31], Put [0x62] [0x32]] = Inr c1_batch
   \<and> Batch_commit c1_batch c1_db0 = (Inr (), c1_batch\<lparr>b_is_committed := True\<rparr>, c1_db1)
   \<and> DB_get c1_db1 [0x61] = Inr (Some [0x31])
   \<and> DB_get c1_db1 [0x62] = Inr (Some [0x32])
   \<and> DB_open host0 c1_options (db_dir (DB_close c1_db1)) = Inr c1_db2
   \<and> DB_get c1_db2 [0x61] = Inr None
   \<and> DB_get c1_db2 [0x62] = Inr (Some [0x32])
   \<and> take 15 c1_segment2 = encoded c1_put_b
   \<and> DB_open host0 c1_options c1_crashed = Inr c1_db3
   \<and> DB_get c1_db3 [0x61] = Inr None
   \<and> DB_get c1_db3 [0x62] = Inr (Some [0x32])"
  using c1_open0 c1_batch_ops c1_commit c1_get1 c1_reopen c1_get2 c1_truncated
    c1_reopen_crashed c1_get3
  by simp

end
